theory Spec2Isabelle
  imports Main "HOL-Library.AList"
begin

section \<open>Python values\<close>

text \<open>
  A Python \<open>str\<close> is a sequence of Unicode code points; it is modelled as a list of
  natural numbers, so that \<open>len\<close>, slicing and the replacement of the "smart"
  punctuation above U+00FF are what the interpreter computes. \<open>ascii\<close> embeds an
  ASCII literal.
\<close>

type_synonym pystr = "nat list"

definition ascii :: "string \<Rightarrow> pystr" where
  "ascii s = map (of_char :: char \<Rightarrow> nat) s"

text \<open>
  The values produced by \<open>json.loads\<close> and held in the fallback structures. A Python
  \<open>dict\<close> keeps its keys in insertion order: it is an association list with one
  entry per key. A float is kept as the text of its literal.
\<close>

datatype json =
    JNull
  | JBool bool
  | JInt int
  | JFloat pystr
  | JString pystr
  | JArray "json list"
  | JObject "(pystr \<times> json) list"

type_synonym pydict = "(pystr \<times> json) list"

text \<open>Exceptions are values: the class and the message that \<open>str(e)\<close> returns.\<close>

datatype exc_class =
    ValueError
  | TypeError
  | AttributeError
  | JSONDecodeError
  | RecursionError
  | IntegrityError
  | OtherError pystr

datatype py_exc = PyExc exc_class pystr

fun exc_str :: "py_exc \<Rightarrow> pystr" where
  "exc_str (PyExc c m) = m"

fun exc_cls :: "py_exc \<Rightarrow> exc_class" where
  "exc_cls (PyExc c m) = c"

subsection \<open>Dictionaries\<close>

text \<open>\<open>d.get(k, default)\<close>.\<close>

definition dict_get :: "pydict \<Rightarrow> pystr \<Rightarrow> json \<Rightarrow> json" where
  "dict_get d k dflt = (case map_of d k of Some v \<Rightarrow> v | None \<Rightarrow> dflt)"

text \<open>
  \<open>{**a, **b}\<close> for two dictionaries: the entries of \<open>a\<close> in order, each entry of
  \<open>b\<close> then stored as \<open>d[k] = v\<close> would (a key already present keeps its place and
  takes the new value, a new key goes to the end).
\<close>

definition dict_overlay :: "pydict \<Rightarrow> pydict \<Rightarrow> pydict" where
  "dict_overlay a b = foldl (\<lambda>d kv. AList.update (fst kv) (snd kv) d) a b"

fun type_name :: "json \<Rightarrow> string" where
  "type_name JNull = ''NoneType''"
| "type_name (JBool b) = ''bool''"
| "type_name (JInt i) = ''int''"
| "type_name (JFloat f) = ''float''"
| "type_name (JString s) = ''str''"
| "type_name (JArray xs) = ''list''"
| "type_name (JObject kvs) = ''dict''"

text \<open>\<open>isinstance(v, dict)\<close>.\<close>

fun is_mapping :: "json \<Rightarrow> bool" where
  "is_mapping (JObject kvs) = True"
| "is_mapping v = False"

text \<open>
  \<open>{**fallback_keys, **data}\<close> where \<open>data\<close> is whatever the decoder returned:
  unpacking a value that is not a mapping raises \<open>TypeError\<close>.
\<close>

fun merge_into :: "pydict \<Rightarrow> json \<Rightarrow> py_exc + pydict" where
  "merge_into fallback_keys (JObject kvs) = Inr (dict_overlay fallback_keys kvs)"
| "merge_into fallback_keys v =
     Inl (PyExc TypeError (ascii ([CHR 0x27] @ type_name v @ [CHR 0x27] @ '' object is not a mapping'')))"

text \<open>
  \<open>len(x)\<close>: defined on strings, lists and dictionaries, \<open>TypeError\<close> on the other
  values.
\<close>

fun py_len :: "json \<Rightarrow> py_exc + nat" where
  "py_len (JString s) = Inr (length s)"
| "py_len (JArray xs) = Inr (length xs)"
| "py_len (JObject kvs) = Inr (length kvs)"
| "py_len v = Inl (PyExc TypeError (ascii (''object of type '' @ [CHR 0x27] @ type_name v @ [CHR 0x27] @ '' has no len()'')))"

subsection \<open>String operations of the standard library\<close>

text \<open>
  \<open>str.isspace\<close> on one character; \<open>str.strip()\<close> and the pattern \<open>\s\<close> of a
  \<open>str\<close> regular expression use the same set.
\<close>

definition isspace :: "nat \<Rightarrow> bool" where
  "isspace c \<longleftrightarrow>
     (9 \<le> c \<and> c \<le> 13) \<or> (28 \<le> c \<and> c \<le> 32) \<or> c = 133 \<or> c = 160 \<or> c = 5760 \<or>
     (8192 \<le> c \<and> c \<le> 8202) \<or> c = 8232 \<or> c = 8233 \<or> c = 8239 \<or> c = 8287 \<or> c = 12288"

definition strip :: "pystr \<Rightarrow> pystr" where
  "strip s = rev (dropWhile isspace (rev (dropWhile isspace s)))"

fun startswith :: "pystr \<Rightarrow> pystr \<Rightarrow> bool" where
  "startswith s [] = True"
| "startswith [] (p # ps) = False"
| "startswith (c # cs) (p # ps) = (c = p \<and> startswith cs ps)"

text \<open>\<open>s.find(c)\<close> and \<open>s.rfind(c)\<close> for one character; \<open>None\<close> stands for \<open>-1\<close>.\<close>

fun find_char :: "nat \<Rightarrow> pystr \<Rightarrow> nat option" where
  "find_char c [] = None"
| "find_char c (x # xs) = (if x = c then Some 0 else map_option Suc (find_char c xs))"

definition rfind_char :: "nat \<Rightarrow> pystr \<Rightarrow> nat option" where
  "rfind_char c s = map_option (\<lambda>i. length s - 1 - i) (find_char c (rev s))"

text \<open>The text after the first occurrence of a pattern, if it occurs.\<close>

fun after_first :: "pystr \<Rightarrow> pystr \<Rightarrow> pystr option" where
  "after_first p [] = (if p = [] then Some [] else None)"
| "after_first p (c # cs) =
     (if startswith (c # cs) p then Some (drop (length p) (c # cs)) else after_first p cs)"

text \<open>\<open>s.replace(old, new)\<close> for a one-character \<open>old\<close>.\<close>

definition replace_char :: "nat \<Rightarrow> pystr \<Rightarrow> pystr \<Rightarrow> pystr" where
  "replace_char old new s = concat (map (\<lambda>c. if c = old then new else [c]) s)"

section \<open>Structured-output repair: \<open>_parse_json\<close>\<close>

subsection \<open>The cleaning steps\<close>

text \<open>
  \<open>re.search(r"```(?:json)?\s*(.*?)\s*```", cleaned, re.DOTALL | re.IGNORECASE)\<close>:
  the search starts at the first run of three backquotes, passes an optional \<open>json\<close>
  (any letter case; under \<open>re.IGNORECASE\<close> the letter \<open>s\<close> also matches U+017F)
  and all white space, and group 1 then grows one character at a time until what
  follows is white space and three backquotes. No part of the pattern before the
  closing fence can pass a backquote, so there is a match exactly when a second
  fence follows the first one.
\<close>

definition fence :: pystr where
  "fence = ascii ''```''"

definition ci_json :: "pystr \<Rightarrow> bool" where
  "ci_json s =
     (case s of
        j # s' # o' # n # rest \<Rightarrow>
          (j = 106 \<or> j = 74) \<and> (s' = 115 \<or> s' = 83 \<or> s' = 383) \<and>
          (o' = 111 \<or> o' = 79) \<and> (n = 110 \<or> n = 78)
      | _ \<Rightarrow> False)"

fun lazy_group :: "pystr \<Rightarrow> pystr option" where
  "lazy_group [] = None"
| "lazy_group (c # cs) =
     (if startswith (dropWhile isspace (c # cs)) fence then Some []
      else map_option ((#) c) (lazy_group cs))"

definition fenced_block :: "pystr \<Rightarrow> pystr option" where
  "fenced_block cleaned =
     (case after_first fence cleaned of
        None \<Rightarrow> None
      | Some r \<Rightarrow> lazy_group (dropWhile isspace (if ci_json r then drop 4 r else r)))"

text \<open>
  \<open>if not cleaned.startswith('{'): start = cleaned.find('{'); end = cleaned.rfind('}');
  if start != -1 and end != -1: cleaned = cleaned[start:end+1]\<close>. The slice is empty
  when the last closing brace is before the first opening one.
\<close>

definition extract_object :: "pystr \<Rightarrow> pystr" where
  "extract_object cleaned =
     (if startswith cleaned (ascii ''{'') then cleaned
      else case (find_char 123 cleaned, rfind_char 125 cleaned) of
             (Some start, Some end') \<Rightarrow> take (end' + 1 - start) (drop start cleaned)
           | _ \<Rightarrow> cleaned)"

text \<open>
  \<open>re.sub(r',(\s*[}\]])', r'\1', cleaned)\<close>: a comma followed by white space and a
  closing brace or bracket is dropped.
\<close>

definition closes :: "pystr \<Rightarrow> bool" where
  "closes s = (case s of [] \<Rightarrow> False | c # cs \<Rightarrow> c = 125 \<or> c = 93)"

fun strip_trailing_commas :: "pystr \<Rightarrow> pystr" where
  "strip_trailing_commas [] = []"
| "strip_trailing_commas (c # cs) =
     (if c = 44 \<and> closes (dropWhile isspace cs) then strip_trailing_commas cs
      else c # strip_trailing_commas cs)"

text \<open>\<open>re.sub(r'//[^\n]*', '', cleaned)\<close>: from two slashes to the end of the line.\<close>

function strip_line_comments :: "pystr \<Rightarrow> pystr" where
  "strip_line_comments [] = []"
| "strip_line_comments [c] = [c]"
| "strip_line_comments (a # b # cs) =
     (if a = 47 \<and> b = 47 then strip_line_comments (dropWhile (\<lambda>x. x \<noteq> 10) cs)
      else a # strip_line_comments (b # cs))"
  by pat_completeness auto
termination
  by (relation "measure length") (auto simp: length_dropWhile_le le_imp_less_Suc less_SucI)

text \<open>
  \<open>re.sub(r'/\*.*?\*/', '', cleaned, flags=re.DOTALL)\<close>: from \<open>/*\<close> to the next
  \<open>*/\<close>; an opening with no closing after it is left as it is.
\<close>

lemma after_first_length: "after_first p s = Some r \<Longrightarrow> length r \<le> length s"
  by (induction s) (auto split: if_splits)

function strip_block_comments :: "pystr \<Rightarrow> pystr" where
  "strip_block_comments [] = []"
| "strip_block_comments [c] = [c]"
| "strip_block_comments (a # b # cs) =
     (if a = 47 \<and> b = 42 then
        (case after_first (ascii ''*/'') cs of
           Some r \<Rightarrow> strip_block_comments r
         | None \<Rightarrow> a # strip_block_comments (b # cs))
      else a # strip_block_comments (b # cs))"
  by pat_completeness auto
termination
  by (relation "measure length") (auto dest: after_first_length)

text \<open>
  The \<open>replacements\<close> dictionary, applied in its order: curly quotes, dashes and
  the ellipsis become ASCII.
\<close>

definition replacements :: "(nat \<times> pystr) list" where
  "replacements =
     [(0x2018, ascii [CHR 0x27]), (0x2019, ascii [CHR 0x27]),
      (0x201c, ascii [CHR 0x22]), (0x201d, ascii [CHR 0x22]),
      (0x2013, ascii ''-''), (0x2014, ascii ''--''), (0x2026, ascii ''...'')]"

definition normalise_punctuation :: "pystr \<Rightarrow> pystr" where
  "normalise_punctuation s = foldl (\<lambda>t r. replace_char (fst r) (snd r) t) s replacements"

text \<open>The text handed to \<open>json.loads\<close>, for a response that is not blank.\<close>

definition clean_response :: "pystr \<Rightarrow> pystr" where
  "clean_response text =
     (let cleaned = strip text;
          cleaned = (case fenced_block cleaned of Some g \<Rightarrow> strip g | None \<Rightarrow> cleaned);
          cleaned = extract_object cleaned;
          cleaned = strip_trailing_commas cleaned;
          cleaned = strip_line_comments cleaned;
          cleaned = strip_block_comments cleaned
      in normalise_punctuation cleaned)"

subsection \<open>Decoding and merging\<close>

text \<open>
  \<open>json.loads\<close> belongs to the standard library; the repair step is modelled for an
  arbitrary decoder \<open>loads\<close>, which returns the decoded value or the exception it
  raises. The body of the \<open>try\<close> block is \<open>try_parse\<close>; both handlers
  (\<open>except JSONDecodeError\<close>, which only logs the position, and \<open>except Exception\<close>)
  return the fallback.
\<close>

type_synonym decoder = "pystr \<Rightarrow> py_exc + json"

definition try_parse :: "decoder \<Rightarrow> pystr \<Rightarrow> pydict \<Rightarrow> py_exc + pydict" where
  "try_parse loads cleaned fallback_keys =
     (case loads cleaned of
        Inl e \<Rightarrow> Inl e
      | Inr data \<Rightarrow> merge_into fallback_keys data)"

definition parse_json :: "decoder \<Rightarrow> pystr \<Rightarrow> pydict \<Rightarrow> pydict" where
  "parse_json loads text fallback_keys =
     (if text = [] \<or> strip text = [] then fallback_keys
      else case try_parse loads (clean_response text) fallback_keys of
             Inr merged \<Rightarrow> merged
           | Inl e \<Rightarrow> (if exc_cls e = JSONDecodeError then fallback_keys else fallback_keys))"

subsection \<open>A reference decoder\<close>

text \<open>
  The grammar that CPython's \<open>json.loads\<close> accepts, used to run the model on
  concrete responses: white space is blank, tab, line feed and carriage return; a
  string may not hold a control character and has the escapes of JSON, with a
  surrogate pair joined; a number with a fraction or an exponent is a float;
  \<open>NaN\<close> and the infinities are accepted; an object is built pair by pair, so a
  repeated key keeps its first place and its last value. The text of the error
  messages and the interpreter's limits (recursion depth, digits of an integer)
  are not modelled. Each call to a scanner uses one unit of \<open>fuel\<close>, and
  \<open>json_loads\<close> supplies more than a document of that length can use.
\<close>

definition json_ws :: "nat \<Rightarrow> bool" where
  "json_ws c \<longleftrightarrow> c = 32 \<or> c = 9 \<or> c = 10 \<or> c = 13"

definition skip_ws :: "pystr \<Rightarrow> pystr" where
  "skip_ws s = dropWhile json_ws s"

definition is_digit :: "nat \<Rightarrow> bool" where
  "is_digit c \<longleftrightarrow> 48 \<le> c \<and> c \<le> 57"

definition hex_val :: "nat \<Rightarrow> nat option" where
  "hex_val c =
     (if 48 \<le> c \<and> c \<le> 57 then Some (c - 48)
      else if 97 \<le> c \<and> c \<le> 102 then Some (c - 87)
      else if 65 \<le> c \<and> c \<le> 70 then Some (c - 55)
      else None)"

definition hex4 :: "nat \<Rightarrow> nat \<Rightarrow> nat \<Rightarrow> nat \<Rightarrow> nat option" where
  "hex4 a b c d =
     (case (hex_val a, hex_val b, hex_val c, hex_val d) of
        (Some w, Some x, Some y, Some z) \<Rightarrow> Some (((w * 16 + x) * 16 + y) * 16 + z)
      | _ \<Rightarrow> None)"

text \<open>
  After \<open>\u\<close>: the code point and the number of characters read, four, or ten
  when a high surrogate is followed by the escape of a low one.
\<close>

definition unicode_escape :: "pystr \<Rightarrow> (nat \<times> nat) option" where
  "unicode_escape es =
     (case es of
        a # b # c # d # rest \<Rightarrow>
          (case hex4 a b c d of
             None \<Rightarrow> None
           | Some u \<Rightarrow>
               if 0xd800 \<le> u \<and> u \<le> 0xdbff \<and> 6 < length rest \<and> startswith rest [92, 117] then
                 (case drop 2 rest of
                    a2 # b2 # c2 # d2 # rest2 \<Rightarrow>
                      (case hex4 a2 b2 c2 d2 of
                         None \<Rightarrow> None
                       | Some u2 \<Rightarrow>
                           if 0xdc00 \<le> u2 \<and> u2 \<le> 0xdfff
                           then Some (0x10000 + (u - 0xd800) * 1024 + (u2 - 0xdc00), 10)
                           else Some (u, 4))
                  | _ \<Rightarrow> Some (u, 4))
               else Some (u, 4))
      | _ \<Rightarrow> None)"

definition escape_char :: "nat \<Rightarrow> nat option" where
  "escape_char e =
     (if e = 34 then Some 34 else if e = 92 then Some 92 else if e = 47 then Some 47
      else if e = 98 then Some 8 else if e = 102 then Some 12 else if e = 110 then Some 10
      else if e = 114 then Some 13 else if e = 116 then Some 9 else None)"

text \<open>The string after its opening quote: its value and the text after the closing quote.\<close>

function scan_string :: "pystr \<Rightarrow> (pystr \<times> pystr) option" where
  "scan_string [] = None"
| "scan_string (c # cs) =
     (if c = 34 then Some ([], cs)
      else if c = 92 then
        (case cs of
           [] \<Rightarrow> None
         | e # es \<Rightarrow>
             if e = 117 then
               (case unicode_escape es of
                  None \<Rightarrow> None
                | Some (u, k) \<Rightarrow> map_option (apfst ((#) u)) (scan_string (drop k es)))
             else
               (case escape_char e of
                  None \<Rightarrow> None
                | Some x \<Rightarrow> map_option (apfst ((#) x)) (scan_string es)))
      else if c < 32 then None
      else map_option (apfst ((#) c)) (scan_string cs))"
  by pat_completeness auto
termination
  by (relation "measure length") auto

definition digits_val :: "pystr \<Rightarrow> nat" where
  "digits_val ds = foldl (\<lambda>n c. 10 * n + (c - 48)) 0 ds"

definition exponent :: "pystr \<Rightarrow> pystr" where
  "exponent t =
     (case t of
        [] \<Rightarrow> []
      | e # u \<Rightarrow>
          if e = 101 \<or> e = 69 then
            (let sg = (case u of [] \<Rightarrow> [] | x # xs \<Rightarrow> if x = 43 \<or> x = 45 then [x] else []);
                 ds = takeWhile is_digit (drop (length sg) u)
             in if ds = [] then [] else e # sg @ ds)
          else [])"

definition scan_number :: "pystr \<Rightarrow> (json \<times> pystr) option" where
  "scan_number s =
     (let neg = startswith s [45];
          t = (if neg then drop 1 s else s)
      in case t of
           [] \<Rightarrow> None
         | d # ds \<Rightarrow>
             if \<not> is_digit d then None
             else
               (let ip = (if d = 48 then [d] else takeWhile is_digit t);
                    t1 = drop (length ip) t;
                    frac = (case t1 of
                              p # f # fs \<Rightarrow>
                                if p = 46 \<and> is_digit f then p # takeWhile is_digit (f # fs) else []
                            | _ \<Rightarrow> []);
                    t2 = drop (length frac) t1;
                    ex = exponent t2;
                    t3 = drop (length ex) t2
                in if frac = [] \<and> ex = []
                   then Some (JInt ((if neg then - 1 else 1) * int (digits_val ip)), t3)
                   else Some (JFloat ((if neg then [45] else []) @ ip @ frac @ ex), t3)))"

definition scan_literal :: "pystr \<Rightarrow> (json \<times> pystr) option" where
  "scan_literal s =
     (if startswith s (ascii ''null'') then Some (JNull, drop 4 s)
      else if startswith s (ascii ''true'') then Some (JBool True, drop 4 s)
      else if startswith s (ascii ''false'') then Some (JBool False, drop 5 s)
      else if startswith s (ascii ''NaN'') then Some (JFloat (ascii ''NaN''), drop 3 s)
      else if startswith s (ascii ''Infinity'') then Some (JFloat (ascii ''Infinity''), drop 8 s)
      else if startswith s (ascii ''-Infinity'') then Some (JFloat (ascii ''-Infinity''), drop 9 s)
      else scan_number s)"

fun scan_value :: "nat \<Rightarrow> pystr \<Rightarrow> (json \<times> pystr) option"
  and scan_elems :: "nat \<Rightarrow> json list \<Rightarrow> pystr \<Rightarrow> (json \<times> pystr) option"
  and scan_pairs :: "nat \<Rightarrow> pydict \<Rightarrow> pystr \<Rightarrow> (json \<times> pystr) option"
where
  "scan_value 0 s = None"
| "scan_value (Suc n) [] = None"
| "scan_value (Suc n) (c # cs) =
     (if c = 34 then map_option (apfst JString) (scan_string cs)
      else if c = 123 then
        (let r = skip_ws cs
         in if startswith r [125] then Some (JObject [], drop 1 r) else scan_pairs n [] r)
      else if c = 91 then
        (let r = skip_ws cs
         in if startswith r [93] then Some (JArray [], drop 1 r) else scan_elems n [] r)
      else scan_literal (c # cs))"
| "scan_elems 0 acc s = None"
| "scan_elems (Suc n) acc s =
     (case scan_value n s of
        None \<Rightarrow> None
      | Some (v, rest) \<Rightarrow>
          (case skip_ws rest of
             [] \<Rightarrow> None
           | d # ds \<Rightarrow>
               if d = 93 then Some (JArray (acc @ [v]), ds)
               else if d = 44 then scan_elems n (acc @ [v]) (skip_ws ds)
               else None))"
| "scan_pairs 0 acc s = None"
| "scan_pairs (Suc n) acc s =
     (case s of
        [] \<Rightarrow> None
      | q # qs \<Rightarrow>
          if q \<noteq> 34 then None
          else
            (case scan_string qs of
               None \<Rightarrow> None
             | Some (k, rest) \<Rightarrow>
                 (case skip_ws rest of
                    [] \<Rightarrow> None
                  | colon # r2 \<Rightarrow>
                      if colon \<noteq> 58 then None
                      else
                        (case scan_value n (skip_ws r2) of
                           None \<Rightarrow> None
                         | Some (v, rest2) \<Rightarrow>
                             (case skip_ws rest2 of
                                [] \<Rightarrow> None
                              | d # ds \<Rightarrow>
                                  if d = 125 then Some (JObject (AList.update k v acc), ds)
                                  else if d = 44 then scan_pairs n (AList.update k v acc) (skip_ws ds)
                                  else None)))))"

definition json_loads :: decoder where
  "json_loads s =
     (case scan_value (2 * length s + 1) (skip_ws s) of
        None \<Rightarrow> Inl (PyExc JSONDecodeError (ascii ''Expecting value''))
      | Some (v, rest) \<Rightarrow>
          if skip_ws rest = [] then Inr v
          else Inl (PyExc JSONDecodeError (ascii ''Extra data'')))"

section \<open>Generation client: \<open>_call_gemini_with_retry\<close>\<close>

text \<open>
  What \<open>model.generate_content(prompt)\<close> gives back. Reading \<open>resp.text\<close> either
  returns the text (\<open>Simple\<close>) or raises \<open>ValueError\<close>, and then the candidates are
  walked (\<open>MultiPart\<close>; no candidates is the empty list). A candidate is \<open>None\<close> when
  it has no \<open>content.parts\<close>, a part is \<open>None\<close> when it has no \<open>text\<close>.
\<close>

type_synonym part = "pystr option"
type_synonym candidate = "part list option"

datatype response = Simple pystr | MultiPart "candidate list"

datatype outcome = Returns response | Raises py_exc

text \<open>
  The backend is outside the program: it is the outcome of each call in the order
  the calls are made. Prompts are not modelled: whatever a backend answers to the
  prompts of one run is one such sequence, and every result below holds for all of
  them. The state of the client is the number of calls made and the arguments of
  \<open>time.sleep\<close> so far.
\<close>

type_synonym backend = "nat \<Rightarrow> outcome"

record client =
  calls :: nat
  sleeps :: "nat list"

text \<open>
  \<open>for part in candidate.content.parts: if hasattr(part, 'text'): result += part.text\<close>,
  inside \<open>for candidate in resp.candidates\<close>.
\<close>

fun add_parts :: "pystr \<Rightarrow> part list \<Rightarrow> pystr" where
  "add_parts result [] = result"
| "add_parts result (p # ps) =
     add_parts (case p of Some t \<Rightarrow> result @ t | None \<Rightarrow> result) ps"

fun add_candidates :: "pystr \<Rightarrow> candidate list \<Rightarrow> pystr" where
  "add_candidates result [] = result"
| "add_candidates result (c # cs) =
     add_candidates (case c of Some parts \<Rightarrow> add_parts result parts | None \<Rightarrow> result) cs"

fun response_text :: "response \<Rightarrow> pystr" where
  "response_text (Simple t) = t"
| "response_text (MultiPart cands) = add_candidates [] cands"

text \<open>
  \<open>for attempt in range(max_retries)\<close>: a response returns its text; an exception on
  the last attempt is raised again by the bare \<open>raise\<close>, on an earlier one the loop
  sleeps 2 seconds and goes on. After the loop (only when \<open>max_retries\<close> is 0) the
  function returns the empty string.
\<close>

function retry_loop :: "backend \<Rightarrow> nat \<Rightarrow> nat \<Rightarrow> client \<Rightarrow> (py_exc + pystr) \<times> client" where
  "retry_loop generate_content max_retries attempt c =
     (if attempt < max_retries then
        (case generate_content (calls c) of
           Returns resp \<Rightarrow> (Inr (response_text resp), c\<lparr>calls := calls c + 1\<rparr>)
         | Raises e \<Rightarrow>
             if attempt = max_retries - 1 then (Inl e, c\<lparr>calls := calls c + 1\<rparr>)
             else retry_loop generate_content max_retries (attempt + 1)
                    (c\<lparr>calls := calls c + 1, sleeps := sleeps c @ [2]\<rparr>))
      else (Inr [], c))"
  by pat_completeness auto
termination
  by (relation "measure (\<lambda>(g, m, a, c). m - a)") auto

definition call_gemini_with_retry :: "backend \<Rightarrow> nat \<Rightarrow> client \<Rightarrow> (py_exc + pystr) \<times> client" where
  "call_gemini_with_retry generate_content max_retries c =
     retry_loop generate_content max_retries 0 c"

text \<open>The texts of all the parts of a multi-part response, in order.\<close>

definition all_part_texts :: "candidate list \<Rightarrow> pystr list" where
  "all_part_texts cands =
     concat (map (\<lambda>c. case c of None \<Rightarrow> [] | Some parts \<Rightarrow> concat (map (\<lambda>p. case p of None \<Rightarrow> [] | Some t \<Rightarrow> [t]) parts)) cands)"

section \<open>Quiz generator: \<open>_gen_quiz\<close>\<close>

text \<open>
  \<open>subject.lower()\<close>. The letters A to Z and the Kelvin sign U+212A are the only
  characters whose lower case is an ASCII letter; the lower case of every other
  character is not ASCII, and it is left as it is here, which gives the same
  answer when the result is looked up among the ASCII keys of \<open>quiz_formats\<close>.
\<close>

definition lower_char :: "nat \<Rightarrow> nat" where
  "lower_char c = (if 65 \<le> c \<and> c \<le> 90 then c + 32 else if c = 0x212a then 107 else c)"

definition lower :: "pystr \<Rightarrow> pystr" where
  "lower s = map lower_char s"

text \<open>\<open>quiz_formats.get(subject.lower(), {'type': 'standard', ...})['type']\<close>.\<close>

definition quiz_type_of :: "pystr \<Rightarrow> pystr" where
  "quiz_type_of subject =
     (let s = lower subject
      in if s = ascii ''language'' then ascii ''socratic''
         else if s = ascii ''math'' then ascii ''practice''
         else if s = ascii ''science'' then ascii ''practice_repeatable''
         else if s = ascii ''history'' then ascii ''timeline_fill''
         else if s = ascii ''geography'' then ascii ''practice_repeatable''
         else ascii ''standard'')"

definition quiz_fallback :: "pystr \<Rightarrow> pydict" where
  "quiz_fallback subject =
     [(ascii ''summary'', JString (subject @ ascii '' practice exercise'')),
      (ascii ''quiz_type'', JString (quiz_type_of subject)),
      (ascii ''questions'', JArray [])]"

text \<open>\<open>len(result.get('questions', result.get('timeline_events', [])))\<close>.\<close>

definition question_count :: "pydict \<Rightarrow> py_exc + nat" where
  "question_count result =
     py_len (dict_get result (ascii ''questions'')
               (dict_get result (ascii ''timeline_events'') (JArray [])))"

text \<open>
  \<open>for attempt in range(max_retries)\<close> with \<open>max_retries = 2\<close>: one call of the
  client, one repair, and the count of the items; an exception of the client or of
  \<open>len\<close> leaves the generator. \<open>result\<close> is the variable of that name, unbound
  before the first pass; the \<open>return result\<close> after the loop returns the last one.
\<close>

fun quiz_loop ::
  "decoder \<Rightarrow> backend \<Rightarrow> pystr \<Rightarrow> nat \<Rightarrow> pydict option \<Rightarrow> client \<Rightarrow> (py_exc + pydict) \<times> client"
where
  "quiz_loop loads generate_content subject 0 result c =
     (case result of
        Some r \<Rightarrow> (Inr r, c)
      | None \<Rightarrow> (Inl (PyExc (OtherError (ascii ''UnboundLocalError'')) (ascii ''result'')), c))"
| "quiz_loop loads generate_content subject (Suc n) result c =
     (case call_gemini_with_retry generate_content 2 c of
        (Inl e, c') \<Rightarrow> (Inl e, c')
      | (Inr resp_text, c') \<Rightarrow>
          (let result' = parse_json loads resp_text (quiz_fallback subject)
           in case question_count result' of
                Inl e \<Rightarrow> (Inl e, c')
              | Inr k \<Rightarrow>
                  if k > 0 then (Inr result', c')
                  else quiz_loop loads generate_content subject n (Some result') c'))"

text \<open>
  The lesson text and the difficulty go into the prompt only, so they do not appear
  on the right-hand side.
\<close>

definition gen_quiz ::
  "decoder \<Rightarrow> backend \<Rightarrow> pystr \<Rightarrow> pystr \<Rightarrow> pystr \<Rightarrow> client \<Rightarrow> (py_exc + pydict) \<times> client"
where
  "gen_quiz loads generate_content subject text difficulty c =
     quiz_loop loads generate_content subject 2 None c"

text \<open>The response decodes to an object that has the key \<open>k\<close>.\<close>

definition supplies_key :: "decoder \<Rightarrow> pystr \<Rightarrow> pystr \<Rightarrow> bool" where
  "supplies_key loads resp_text k =
     (strip resp_text \<noteq> [] \<and>
      (case loads (clean_response resp_text) of
         Inr (JObject kvs) \<Rightarrow> k \<in> fst ` set kvs
       | _ \<Rightarrow> False))"

section \<open>Content extraction\<close>

text \<open>\<open>sep.join(parts)\<close>.\<close>

fun join :: "pystr \<Rightarrow> pystr list \<Rightarrow> pystr" where
  "join sep [] = []"
| "join sep [p] = p"
| "join sep (p # q # ps) = p @ sep @ join sep (q # ps)"

text \<open>
  \<open>extract_text(path)\<close> of \<open>app/utils/file_extract.py\<close>. What is stored at a path is
  outside the program: a file read as text (\<open>.txt\<close>, \<open>.md\<close> and every unknown
  extension), the page texts of a PDF, the paragraph texts of a Word document, the
  shape texts of a presentation, or a file whose reader raises, which the
  \<open>except Exception\<close> of the extractor turns into \<open>None\<close>.
\<close>

datatype document =
    TextFile pystr
  | PdfPages "pystr list"
  | DocxParagraphs "pystr list"
  | PptxShapes "pystr list"
  | Unreadable

type_synonym documents = "pystr \<Rightarrow> document option"

text \<open>\<open>'\n'.join(out).strip() or None\<close>.\<close>

definition joined_or_none :: "pystr list \<Rightarrow> pystr option" where
  "joined_or_none out = (let t = strip (join [10] out) in if t = [] then None else Some t)"

definition extract_text :: "documents \<Rightarrow> pystr \<Rightarrow> pystr option" where
  "extract_text docs path =
     (if path = [] then None
      else case docs path of
             None \<Rightarrow> None
           | Some (TextFile content) \<Rightarrow> Some content
           | Some (PdfPages pages) \<Rightarrow> joined_or_none pages
           | Some (DocxParagraphs ps) \<Rightarrow> joined_or_none ps
           | Some (PptxShapes shapes) \<Rightarrow> joined_or_none shapes
           | Some Unreadable \<Rightarrow> None)"

text \<open>
  The first lines of \<open>_generate_all_variants\<close>, which \<open>regenerate_variant\<close> repeats:
  the stripped raw text, then the stripped file text, joined by a blank line;
  \<open>ValueError\<close> when nothing is left; a text of more than 4000 characters is cut
  to 4000 and a marker is appended.
\<close>

definition truncation_marker :: pystr where
  "truncation_marker = [10, 10] @ ascii ''[Content truncated for processing]''"

definition text_parts :: "documents \<Rightarrow> pystr option \<Rightarrow> pystr option \<Rightarrow> pystr list" where
  "text_parts docs original_content file_path =
     (case original_content of
        Some oc \<Rightarrow> if oc \<noteq> [] then [strip oc] else []
      | None \<Rightarrow> []) @
     (case file_path of
        Some fp \<Rightarrow>
          if fp \<noteq> [] then
            (case extract_text docs fp of
               Some file_text \<Rightarrow> if file_text \<noteq> [] then [strip file_text] else []
             | None \<Rightarrow> [])
          else []
      | None \<Rightarrow> [])"

definition extract_base_text :: "documents \<Rightarrow> pystr option \<Rightarrow> pystr option \<Rightarrow> py_exc + pystr" where
  "extract_base_text docs original_content file_path =
     (let parts = text_parts docs original_content file_path;
          base_text = join [10, 10] parts
      in if parts = [] \<or> base_text = []
         then Inl (PyExc ValueError (ascii ''No content found in assignment''))
         else if length base_text > 4000
              then Inr (take 4000 base_text @ truncation_marker)
              else Inr base_text)"

section \<open>Media: muxing narration into the video\<close>

text \<open>\<open>os.path.join(a, b)\<close> on a POSIX system.\<close>

definition path_join :: "pystr \<Rightarrow> pystr \<Rightarrow> pystr" where
  "path_join a b =
     (if startswith b [47] then b
      else if a = [] \<or> last a = 47 then a @ b
      else a @ [47] @ b)"

text \<open>
  The file system is the size of the file at each path (\<open>None\<close>: no file), with the
  number of times \<open>ffmpeg\<close> and \<open>manim\<close> were started. What a run of \<open>ffmpeg\<close> does is
  outside the program: it exits with a code, having written an output file of some
  size or none; it is not installed (\<open>FileNotFoundError\<close>); it passes the 30 seconds
  (\<open>TimeoutExpired\<close>); or \<open>subprocess.run\<close> raises something else.
\<close>

datatype process_outcome =
    Exited int "nat option"
  | NotInstalled
  | TimedOut
  | Crashed py_exc

record media =
  files :: "pystr \<Rightarrow> nat option"
  ffmpeg_runs :: nat
  manim_runs :: nat

text \<open>
  \<open>_add_audio_to_video\<close>: no video file, or one under 10000 bytes, returns the video
  path before \<open>ffmpeg\<close> is started; exit code 0 with the output file present returns
  the output path; every other outcome returns the video path, each through its own
  \<open>except\<close> clause.
\<close>

definition add_audio_to_video ::
  "(nat \<Rightarrow> process_outcome) \<Rightarrow> pystr \<Rightarrow> pystr \<Rightarrow> pystr \<Rightarrow> pystr \<Rightarrow> media \<Rightarrow> pystr \<times> media"
where
  "add_audio_to_video ffmpeg video_path audio_path out_dir name m =
     (let output_path = path_join out_dir name
      in case files m video_path of
           None \<Rightarrow> (video_path, m)
         | Some video_size \<Rightarrow>
             if video_size < 10000 then (video_path, m)
             else
               (let m1 = m\<lparr>ffmpeg_runs := ffmpeg_runs m + 1\<rparr>
                in case ffmpeg (ffmpeg_runs m) of
                     Exited returncode written \<Rightarrow>
                       (let m2 = (case written of
                                    Some sz \<Rightarrow> m1\<lparr>files := (files m1)(output_path \<mapsto> sz)\<rparr>
                                  | None \<Rightarrow> m1)
                        in if returncode = 0 \<and> files m2 output_path \<noteq> None
                           then (output_path, m2)
                           else (video_path, m2))
                   | NotInstalled \<Rightarrow> (video_path, m1)
                   | TimedOut \<Rightarrow> (video_path, m1)
                   | Crashed e \<Rightarrow> (video_path, m1)))"

text \<open>
  The block of \<open>_generate_all_variants\<close> that calls it:
  \<open>if narration_audio and os.path.exists(narration_audio)\<close>, and inside it
  \<open>if os.path.exists(video_mp4) and os.path.getsize(video_mp4) > 10000\<close>.
\<close>

definition combine_video_audio ::
  "(nat \<Rightarrow> process_outcome) \<Rightarrow> pystr \<Rightarrow> pystr option \<Rightarrow> pystr \<Rightarrow> media \<Rightarrow> pystr \<times> media"
where
  "combine_video_audio ffmpeg video_mp4 narration_audio a_dir m =
     (case narration_audio of
        None \<Rightarrow> (video_mp4, m)
      | Some audio \<Rightarrow>
          if audio \<noteq> [] \<and> files m audio \<noteq> None then
            (case files m video_mp4 of
               None \<Rightarrow> (video_mp4, m)
             | Some video_size \<Rightarrow>
                 if video_size > 10000
                 then add_audio_to_video ffmpeg video_mp4 audio a_dir (ascii ''visual.mp4'') m
                 else (video_mp4, m))
          else (video_mp4, m))"

text \<open>The muxer failed: a non-zero exit code, not installed, timed out, or any other error.\<close>

fun mux_failed :: "process_outcome \<Rightarrow> bool" where
  "mux_failed (Exited returncode written) = (returncode \<noteq> 0)"
| "mux_failed NotInstalled = True"
| "mux_failed TimedOut = True"
| "mux_failed (Crashed e) = True"

section \<open>Persistence\<close>

text \<open>
  The two tables of \<open>app/models/models.py\<close>. The \<open>status\<close> column holds one of the
  four strings \<open>pending\<close>, \<open>generating\<close>, \<open>ready\<close>, \<open>failed\<close>. \<open>content_text\<close> is
  \<open>json.dumps\<close> of a structure and is kept as that structure. The time stamps and
  the identifier of a version are left out: no operation here reads them, and the
  order of the rows stands for the order of creation.
\<close>

datatype status = Pending | Generating | Ready | Failed

record assignment =
  a_id :: pystr
  title :: pystr
  subject :: pystr
  teacher_id :: "pystr option"
  original_content :: "pystr option"
  file_path :: "pystr option"
  status :: status
  error_message :: "pystr option"

record assignment_version =
  assignment_id :: pystr
  variant_type :: pystr
  version_subject :: pystr
  content_text :: pydict
  assets :: json
  ready :: bool

text \<open>
  The database as the SQLAlchemy session shows it: the committed rows of the two
  tables, and the assignment rows that a \<open>flush\<close> has inserted in the transaction
  still open. \<open>commit\<close> writes the attributes of the assignment object in hand to the
  row of its identifier, committed or flushed, and makes the flushed rows
  committed. \<open>rollback\<close> drops the flushed rows and expunges their objects from the
  session, so a later \<open>commit\<close> finds no row for such an object and writes nothing
  for it.
\<close>

record database =
  assignments :: "assignment list"
  versions :: "assignment_version list"
  flushed :: "assignment list"

definition write_object :: "assignment \<Rightarrow> assignment list \<Rightarrow> assignment list" where
  "write_object a rows = map (\<lambda>r. if a_id r = a_id a then a else r) rows"

text \<open>
  \<open>db.session.add(assignment); db.session.flush()\<close>: the primary key rejects an
  identifier that is already there.
\<close>

definition session_add_flush :: "assignment \<Rightarrow> database \<Rightarrow> py_exc + database" where
  "session_add_flush a d =
     (if a_id a \<in> set (map a_id (assignments d @ flushed d))
      then Inl (PyExc IntegrityError (ascii ''UNIQUE constraint failed: assignments.id''))
      else Inr (d\<lparr>flushed := flushed d @ [a]\<rparr>))"

definition session_commit :: "assignment \<Rightarrow> database \<Rightarrow> database" where
  "session_commit a d =
     d\<lparr>assignments := write_object a (assignments d) @ write_object a (flushed d),
       flushed := []\<rparr>"

definition session_rollback :: "database \<Rightarrow> database" where
  "session_rollback d = d\<lparr>flushed := []\<rparr>"

text \<open>
  \<open>idx_assignment_variant_unique\<close>, the unique index on
  \<open>(assignment_id, variant_type)\<close>.
\<close>

definition version_key :: "assignment_version \<Rightarrow> pystr \<times> pystr" where
  "version_key v = (assignment_id v, variant_type v)"

definition unique_versions :: "database \<Rightarrow> bool" where
  "unique_versions d = distinct (map version_key (versions d))"

text \<open>
  \<open>_persist_variant\<close>: \<open>db.session.add(version); db.session.commit()\<close>. The insert
  of a second row with the key of an existing one violates the index: the commit
  raises \<open>IntegrityError\<close> and the transaction is rolled back. The function has no
  \<open>return\<close>, its value is \<open>None\<close>. The column \<open>assets\<close> holds any JSON value: the
  mapping \<open>assets or {}\<close> here, a string where \<open>regenerate_variant\<close> assigns the text
  of \<open>json.dumps\<close>.
\<close>

definition persist_variant ::
  "assignment \<Rightarrow> pystr \<Rightarrow> pystr \<Rightarrow> pydict \<Rightarrow> pydict \<Rightarrow> database \<Rightarrow> (py_exc + unit) \<times> database"
where
  "persist_variant a vtype subj content asset_paths d =
     (let version = \<lparr>assignment_id = a_id a, variant_type = vtype, version_subject = subj,
                      content_text = content, assets = JObject asset_paths, ready = True\<rparr>
      in if version_key version \<in> set (map version_key (versions d))
         then (Inl (PyExc IntegrityError
                 (ascii ''UNIQUE constraint failed: assignment_versions.assignment_id, assignment_versions.variant_type'')),
               session_rollback d)
         else (Inr (), session_commit a (d\<lparr>versions := versions d @ [version]\<rparr>)))"

section \<open>The orchestrator\<close>

text \<open>
  Everything outside the program that a run depends on: the decoder, the generation
  backend, the stored documents, the runs of \<open>manim\<close> and \<open>ffmpeg\<close>, the number of
  bytes the speech synthesis writes for a script (the audio of the speech backend or
  the placeholder), the texts that \<open>str\<close> and \<open>json.dumps\<close> give for a value (they
  only go into a narration script), the text of \<open>_default_manim_code\<close> for a title
  (its sanitising uses the Unicode tables of \<open>str.isprintable\<close>; only its being a
  string matters here), the upload directory, and what \<open>open(path, 'w')\<close> raises
  for a path (\<open>None\<close> when the file is created; \<open>FileNotFoundError\<close> for a path
  through a directory that does not exist, as for \<open>quiz_a/b.json\<close>).
\<close>

record env =
  decoder_of :: decoder
  gemini :: backend
  stored :: documents
  manim_tool :: "nat \<Rightarrow> process_outcome"
  ffmpeg_tool :: "nat \<Rightarrow> process_outcome"
  speech :: "pystr \<Rightarrow> nat"
  py_str :: "json \<Rightarrow> pystr"
  json_dumps :: "json \<Rightarrow> pystr"
  default_manim_code :: "pystr \<Rightarrow> pystr"
  upload_root :: pystr
  open_w :: "pystr \<Rightarrow> py_exc option"

record world =
  client :: client
  media :: media
  db :: database

subsection \<open>The other three generators\<close>

text \<open>
  Each calls the client, repairs the response over its fallback, and prints the
  length of a field of the result before returning it; \<open>len\<close> raises \<open>TypeError\<close>
  when the response gave that field a value without a length.
\<close>

definition gen_simplified_text :: "env \<Rightarrow> pystr \<Rightarrow> pystr \<Rightarrow> client \<Rightarrow> (py_exc + pydict) \<times> client" where
  "gen_simplified_text ev subj text c =
     (case call_gemini_with_retry (gemini ev) 2 c of
        (Inl e, c') \<Rightarrow> (Inl e, c')
      | (Inr resp_text, c') \<Rightarrow>
          (let result = parse_json (decoder_of ev) resp_text
                          [(ascii ''text'', JString text), (ascii ''highlights'', JArray [])]
           in case py_len (dict_get result (ascii ''text'') (JString [])) of
                Inl e \<Rightarrow> (Inl e, c')
              | Inr n \<Rightarrow> (Inr result, c')))"

definition gen_audio_script :: "env \<Rightarrow> pystr \<Rightarrow> pystr \<Rightarrow> client \<Rightarrow> (py_exc + pydict) \<times> client" where
  "gen_audio_script ev subj text c =
     (case call_gemini_with_retry (gemini ev) 2 c of
        (Inl e, c') \<Rightarrow> (Inl e, c')
      | (Inr resp_text, c') \<Rightarrow>
          (let result = parse_json (decoder_of ev) resp_text
                          [(ascii ''discussion'',
                              JArray [JObject [(ascii ''speaker'', JString (ascii ''Host'')),
                                               (ascii ''text'', JString (take 500 text))]]),
                           (ascii ''summary'', JString (ascii ''Educational podcast discussion''))]
           in case py_len (dict_get result (ascii ''discussion'') (JArray [])) of
                Inl e \<Rightarrow> (Inl e, c')
              | Inr n \<Rightarrow> (Inr result, c')))"

definition gen_visual_plan :: "env \<Rightarrow> pystr \<Rightarrow> pystr \<Rightarrow> client \<Rightarrow> (py_exc + pydict) \<times> client" where
  "gen_visual_plan ev subj text c =
     (case call_gemini_with_retry (gemini ev) 2 c of
        (Inl e, c') \<Rightarrow> (Inl e, c')
      | (Inr resp_text, c') \<Rightarrow>
          (let result = parse_json (decoder_of ev) resp_text
                          [(ascii ''description'',
                              JString (ascii ''Visual animation for '' @ subj @
                                       ascii '' lesson based on the provided content.'')),
                           (ascii ''narration'',
                              JArray [JObject [(ascii ''text'', JString (take 200 text)),
                                               (ascii ''duration'', JInt 10)]]),
                           (ascii ''manim_code'', JString (default_manim_code ev text))]
           in case py_len (dict_get result (ascii ''description'') (JString [])) of
                Inl e \<Rightarrow> (Inl e, c')
              | Inr n \<Rightarrow>
                  (case py_len (dict_get result (ascii ''manim_code'') (JString [])) of
                     Inl e \<Rightarrow> (Inl e, c')
                   | Inr k \<Rightarrow> (Inr result, c'))))"

subsection \<open>Speech synthesis and rendering\<close>

text \<open>
  \<open>' '.join(seg.get('text', '') for seg in segments)\<close>: the generator is run to its
  end first, where a segment that is not a dictionary raises \<open>AttributeError\<close>;
  \<open>join\<close> then raises \<open>TypeError\<close> on a text that is not a string.
\<close>

fun collect :: "('a \<Rightarrow> py_exc + 'b) \<Rightarrow> 'a list \<Rightarrow> py_exc + 'b list" where
  "collect f [] = Inr []"
| "collect f (x # xs) =
     (case f x of
        Inl e \<Rightarrow> Inl e
      | Inr y \<Rightarrow> (case collect f xs of Inl e \<Rightarrow> Inl e | Inr ys \<Rightarrow> Inr (y # ys)))"

fun segment_text :: "json \<Rightarrow> py_exc + json" where
  "segment_text (JObject kvs) = Inr (dict_get kvs (ascii ''text'') (JString []))"
| "segment_text v =
     Inl (PyExc AttributeError (ascii ([CHR 0x27] @ type_name v @ [CHR 0x27] @ '' object has no attribute get'')))"

fun as_str :: "json \<Rightarrow> py_exc + pystr" where
  "as_str (JString s) = Inr s"
| "as_str v = Inl (PyExc TypeError (ascii (''sequence item: expected str instance, '' @ type_name v @ '' found'')))"

definition join_segment_texts :: "json list \<Rightarrow> py_exc + pystr" where
  "join_segment_texts segments =
     (case collect segment_text segments of
        Inl e \<Rightarrow> Inl e
      | Inr vs \<Rightarrow> (case collect as_str vs of Inl e \<Rightarrow> Inl e | Inr ts \<Rightarrow> Inr (join [32] ts)))"

text \<open>
  \<open>_synthesize_audio\<close> catches every exception of the speech backend and writes a
  placeholder then: in all cases the file is written and its path returned.
\<close>

definition synthesize_audio :: "env \<Rightarrow> pystr \<Rightarrow> pystr \<Rightarrow> pystr \<Rightarrow> media \<Rightarrow> pystr \<times> media" where
  "synthesize_audio ev script out_dir name m =
     (let out_path = path_join out_dir name
      in (out_path, m\<lparr>files := (files m)(out_path \<mapsto> speech ev script)\<rparr>))"

text \<open>
  \<open>_synthesize_podcast\<close>: whatever happens in the multi-voice branch, the function
  either returns the path of the written file or ends in the single-voice fallback
  \<open>' '.join(seg.get('text', '') for seg in discussion)\<close>, whose exceptions are not
  caught. A segment that is not a dictionary, or whose text is not a string, cannot
  pass the multi-voice branch either (the speech client takes a string), so the
  function raises exactly when that join raises.
\<close>

definition synthesize_podcast ::
  "env \<Rightarrow> json list \<Rightarrow> pystr \<Rightarrow> pystr \<Rightarrow> media \<Rightarrow> (py_exc + pystr) \<times> media"
where
  "synthesize_podcast ev discussion out_dir name m =
     (case join_segment_texts discussion of
        Inl e \<Rightarrow> (Inl e, m)
      | Inr all_text \<Rightarrow>
          (let (out_path, m') = synthesize_audio ev all_text out_dir name m
           in (Inr out_path, m')))"

text \<open>
  \<open>_render_manim\<close>: the script is written (\<open>TypeError\<close> when the code is not a
  string), \<open>manim\<close> is run; exit code 0 with a rendered file copies it to the video
  path and reports success; everything else writes the 40 bytes of the placeholder
  unless a file is already at the video path, and reports failure.
\<close>

definition render_manim ::
  "env \<Rightarrow> json \<Rightarrow> pystr \<Rightarrow> pystr \<Rightarrow> media \<Rightarrow> (py_exc + pystr \<times> pystr \<times> bool) \<times> media"
where
  "render_manim ev manim_code out_dir name m =
     (case manim_code of
        JString code \<Rightarrow>
          (let script_path = path_join out_dir (ascii ''scene.py'');
               video_path = path_join out_dir name;
               m1 = m\<lparr>manim_runs := manim_runs m + 1\<rparr>;
               placeholder =
                 (if files m1 video_path = None
                  then (Inr (video_path, script_path, False),
                        m1\<lparr>files := (files m1)(video_path \<mapsto> 40)\<rparr>)
                  else (Inr (video_path, script_path, False), m1))
           in case manim_tool ev (manim_runs m) of
                Exited returncode rendered \<Rightarrow>
                  (case rendered of
                     Some sz \<Rightarrow>
                       if returncode = 0
                       then (Inr (video_path, script_path, True),
                             m1\<lparr>files := (files m1)(video_path \<mapsto> sz)\<rparr>)
                       else placeholder
                   | None \<Rightarrow> placeholder)
              | _ \<Rightarrow> placeholder)
      | v \<Rightarrow>
          (Inl (PyExc TypeError (ascii ''write() argument must be str, not '' @ ascii (type_name v))), m))"

subsection \<open>The four steps of \<open>_generate_all_variants\<close>\<close>

text \<open>\<open>x and isinstance(x, list)\<close>: the elements of a list that is not empty.\<close>

definition nonempty_list :: "json \<Rightarrow> json list option" where
  "nonempty_list v = (case v of JArray xs \<Rightarrow> if xs = [] then None else Some xs | _ \<Rightarrow> None)"

definition simplified_step :: "env \<Rightarrow> assignment \<Rightarrow> pystr \<Rightarrow> world \<Rightarrow> (py_exc + unit) \<times> world" where
  "simplified_step ev a base_text w =
     (case gen_simplified_text ev (subject a) base_text (client w) of
        (Inl e, c') \<Rightarrow> (Inl e, w\<lparr>client := c'\<rparr>)
      | (Inr simplified, c') \<Rightarrow>
          (let (r, d') = persist_variant a (ascii ''simplified'') (subject a) simplified [] (db w)
           in (r, w\<lparr>client := c', db := d'\<rparr>)))"

text \<open>
  The single-voice branch of the audio step:
  \<open>script_text = audio.get('script', str(audio))\<close>, serialised when it is a
  dictionary, and \<open>str(script_text)\<close> is synthesised.
\<close>

definition narration_script :: "env \<Rightarrow> pydict \<Rightarrow> pystr" where
  "narration_script ev audio =
     (case dict_get audio (ascii ''script'') (JString (py_str ev (JObject audio))) of
        JObject kvs \<Rightarrow> json_dumps ev (JObject kvs)
      | JString t \<Rightarrow> t
      | v \<Rightarrow> py_str ev v)"

definition audio_step ::
  "env \<Rightarrow> assignment \<Rightarrow> pystr \<Rightarrow> pystr \<Rightarrow> world \<Rightarrow> (py_exc + unit) \<times> world"
where
  "audio_step ev a base_text a_dir w =
     (case gen_audio_script ev (subject a) base_text (client w) of
        (Inl e, c') \<Rightarrow> (Inl e, w\<lparr>client := c'\<rparr>)
      | (Inr audio, c') \<Rightarrow>
          (let synthesized =
                 (case nonempty_list (dict_get audio (ascii ''discussion'') (JArray [])) of
                    Some discussion \<Rightarrow>
                      synthesize_podcast ev discussion a_dir (ascii ''podcast.mp3'') (media w)
                  | None \<Rightarrow>
                      (let (out_path, m') =
                             synthesize_audio ev (narration_script ev audio) a_dir
                               (ascii ''narration.mp3'') (media w)
                       in (Inr out_path, m')))
           in case synthesized of
                (Inl e, m') \<Rightarrow> (Inl e, w\<lparr>client := c', media := m'\<rparr>)
              | (Inr audio_mp3, m') \<Rightarrow>
                  (let (r, d') =
                         persist_variant a (ascii ''audio'') (subject a) audio
                           [(ascii ''audio_mp3'', JString audio_mp3),
                            (ascii ''summary'',
                               dict_get audio (ascii ''summary'')
                                 (JString (ascii ''Educational podcast discussion'')))]
                           (db w)
                   in (r, w\<lparr>client := c', media := m', db := d'\<rparr>))))"

text \<open>The narration of one visual plan; without a narration list the earlier audio stays.\<close>

definition narrate ::
  "env \<Rightarrow> pydict \<Rightarrow> pystr \<Rightarrow> pystr option \<Rightarrow> media \<Rightarrow> (py_exc + pystr option) \<times> media"
where
  "narrate ev visual a_dir narration_audio m =
     (case nonempty_list (dict_get visual (ascii ''narration'') (JArray [])) of
        None \<Rightarrow> (Inr narration_audio, m)
      | Some segments \<Rightarrow>
          (case join_segment_texts segments of
             Inl e \<Rightarrow> (Inl e, m)
           | Inr full_narration \<Rightarrow>
               (let (out_path, m') =
                      synthesize_audio ev full_narration a_dir (ascii ''narration.mp3'') m
                in (Inr (Some out_path), m'))))"

text \<open>\<open>os.path.exists(p) and os.path.getsize(p) > 10000\<close>.\<close>

definition valid_video :: "media \<Rightarrow> pystr \<Rightarrow> bool" where
  "valid_video m p = (case files m p of Some sz \<Rightarrow> sz > 10000 | None \<Rightarrow> False)"

text \<open>
  \<open>for attempt in range(2)\<close> of the visual step: plan, narration, render; a valid
  video or the last attempt ends the loop. The counter is the number of attempts
  left.
\<close>

fun visual_loop ::
  "env \<Rightarrow> pystr \<Rightarrow> pystr \<Rightarrow> pystr \<Rightarrow> nat \<Rightarrow> pystr option \<Rightarrow> client \<Rightarrow> media \<Rightarrow>
     (py_exc + pydict \<times> pystr \<times> pystr \<times> pystr option) \<times> client \<times> media"
where
  "visual_loop ev subj base_text a_dir 0 narration_audio c m =
     (Inl (PyExc (OtherError (ascii ''UnboundLocalError'')) (ascii ''visual'')), c, m)"
| "visual_loop ev subj base_text a_dir (Suc n) narration_audio c m =
     (case gen_visual_plan ev subj base_text c of
        (Inl e, c') \<Rightarrow> (Inl e, c', m)
      | (Inr visual, c') \<Rightarrow>
          (case narrate ev visual a_dir narration_audio m of
             (Inl e, m1) \<Rightarrow> (Inl e, c', m1)
           | (Inr narration_audio', m1) \<Rightarrow>
               (case render_manim ev (dict_get visual (ascii ''manim_code'') (JString [])) a_dir
                       (ascii ''visual_silent.mp4'') m1 of
                  (Inl e, m2) \<Rightarrow> (Inl e, c', m2)
                | (Inr (video_mp4, manim_script, success), m2) \<Rightarrow>
                    if (success \<and> valid_video m2 video_mp4) \<or> n = 0
                    then (Inr (visual, video_mp4, manim_script, narration_audio'), c', m2)
                    else visual_loop ev subj base_text a_dir n narration_audio' c' m2)))"

definition visual_step ::
  "env \<Rightarrow> assignment \<Rightarrow> pystr \<Rightarrow> pystr \<Rightarrow> world \<Rightarrow> (py_exc + unit) \<times> world"
where
  "visual_step ev a base_text a_dir w =
     (case visual_loop ev (subject a) base_text a_dir 2 None (client w) (media w) of
        (Inl e, c', m') \<Rightarrow> (Inl e, w\<lparr>client := c', media := m'\<rparr>)
      | (Inr (visual, video_mp4, manim_script, narration_audio), c', m') \<Rightarrow>
          (let (final_video, m2) =
                 combine_video_audio (ffmpeg_tool ev) video_mp4 narration_audio a_dir m';
               (r, d') =
                 persist_variant a (ascii ''visual'') (subject a) visual
                   [(ascii ''video_mp4'', JString final_video),
                    (ascii ''manim_script'', JString manim_script),
                    (ascii ''narration_audio'',
                       JString (case narration_audio of Some p \<Rightarrow> p | None \<Rightarrow> []))]
                   (db w)
           in (r, w\<lparr>client := c', media := m2, db := d'\<rparr>)))"

text \<open>
  \<open>_write_json\<close>: \<open>open(path, 'w')\<close>, then \<open>json.dump\<close> with the default
  \<open>ensure_ascii\<close>, which writes any decoded value; the path is returned. The file is
  read by nothing, so only the exception of \<open>open\<close> is kept.
\<close>

definition write_json :: "env \<Rightarrow> pydict \<Rightarrow> pystr \<Rightarrow> py_exc + pystr" where
  "write_json ev data path = (case open_w ev path of Some e \<Rightarrow> Inl e | None \<Rightarrow> Inr path)"

text \<open>The quiz step.\<close>

definition quiz_step ::
  "env \<Rightarrow> assignment \<Rightarrow> pystr \<Rightarrow> pystr \<Rightarrow> world \<Rightarrow> (py_exc + unit) \<times> world"
where
  "quiz_step ev a base_text a_dir w =
     (case gen_quiz (decoder_of ev) (gemini ev) (subject a) base_text (ascii ''medium'') (client w) of
        (Inl e, c') \<Rightarrow> (Inl e, w\<lparr>client := c'\<rparr>)
      | (Inr quiz, c') \<Rightarrow>
          (case write_json ev quiz (path_join a_dir (ascii ''quiz.json'')) of
             Inl e \<Rightarrow> (Inl e, w\<lparr>client := c'\<rparr>)
           | Inr quiz_path \<Rightarrow>
               (let (r, d') =
                      persist_variant a (ascii ''quiz'') (subject a) quiz
                        [(ascii ''quiz_json'', JString quiz_path)] (db w)
                in (r, w\<lparr>client := c', db := d'\<rparr>))))"

subsection \<open>\<open>_generate_all_variants\<close>, \<open>create_assignment\<close>, \<open>regenerate_variant\<close>\<close>

text \<open>
  \<open>_generate_all_variants\<close> in two parts: the base text is computed first, and the
  four steps that follow it get that text and nothing else of the two sources.
\<close>

definition generate_from ::
  "env \<Rightarrow> assignment \<Rightarrow> pystr \<Rightarrow> world \<Rightarrow> (py_exc + unit) \<times> world"
where
  "generate_from ev a base_text w =
     (let a_dir = path_join (upload_root ev) (a_id a)
      in case simplified_step ev a base_text w of
           (Inl e, w1) \<Rightarrow> (Inl e, w1)
         | (Inr u1, w1) \<Rightarrow>
             (case audio_step ev a base_text a_dir w1 of
                (Inl e, w2) \<Rightarrow> (Inl e, w2)
              | (Inr u2, w2) \<Rightarrow>
                  (case visual_step ev a base_text a_dir w2 of
                     (Inl e, w3) \<Rightarrow> (Inl e, w3)
                   | (Inr u3, w3) \<Rightarrow> quiz_step ev a base_text a_dir w3)))"

definition generate_all_variants :: "env \<Rightarrow> assignment \<Rightarrow> world \<Rightarrow> (py_exc + unit) \<times> world" where
  "generate_all_variants ev a w =
     (case extract_base_text (stored ev) (original_content a) (file_path a) of
        Inl e \<Rightarrow> (Inl e, w)
      | Inr base_text \<Rightarrow> generate_from ev a base_text w)"

text \<open>
  \<open>create_assignment\<close>. The identifier is the \<open>uuid4\<close> drawn at the flush, a
  parameter here. The flush stands before the \<open>try\<close>: its exception leaves the
  function at once. In the \<open>except\<close> clause the session is rolled back, the object
  gets \<open>failed\<close> and the message \<open>str(e)\<close>, the session is committed, and the
  exception is raised again.
\<close>

definition create_assignment ::
  "env \<Rightarrow> pystr \<Rightarrow> pystr \<Rightarrow> pystr \<Rightarrow> pystr option \<Rightarrow> pystr option \<Rightarrow> pystr option \<Rightarrow> world \<Rightarrow>
     (py_exc + assignment) \<times> world"
where
  "create_assignment ev new_id ttl subj teacher original_text path w =
     (let a = \<lparr>a_id = new_id, title = ttl, subject = subj, teacher_id = teacher,
                original_content = original_text, file_path = path,
                status = Generating, error_message = None\<rparr>
      in case session_add_flush a (db w) of
           Inl e \<Rightarrow> (Inl e, w)
         | Inr d1 \<Rightarrow>
             (case generate_all_variants ev a (w\<lparr>db := d1\<rparr>) of
                (Inr u, w') \<Rightarrow>
                  (let a' = a\<lparr>status := Ready\<rparr>
                   in (Inr a', w'\<lparr>db := session_commit a' (db w')\<rparr>))
              | (Inl e, w') \<Rightarrow>
                  (let a' = a\<lparr>status := Failed, error_message := Some (exc_str e)\<rparr>
                   in (Inl e, w'\<lparr>db := session_commit a' (session_rollback (db w'))\<rparr>))))"

text \<open>
  \<open>regenerate_variant\<close>, in the same two parts. \<open>filter_by(...).first()\<close> is the
  first row with the key. The quiz is generated and written to
  \<open>quiz_{difficulty}.json\<close> before anything is stored, so an exception of
  \<open>_write_json\<close> leaves the tables as they were. An existing row gets the new
  content, the text \<open>json.dumps({'quiz_json': quiz_path})\<close> as its assets, and is
  returned; otherwise the value of \<open>_persist_variant\<close> is returned, which is \<open>None\<close>.
\<close>

fun update_first :: "('a \<Rightarrow> bool) \<Rightarrow> ('a \<Rightarrow> 'a) \<Rightarrow> 'a list \<Rightarrow> 'a list" where
  "update_first P f [] = []"
| "update_first P f (x # xs) = (if P x then f x # xs else x # update_first P f xs)"

definition regenerate_from ::
  "env \<Rightarrow> assignment \<Rightarrow> pystr \<Rightarrow> pystr \<Rightarrow> pystr \<Rightarrow> world \<Rightarrow>
     (py_exc + assignment_version option) \<times> world"
where
  "regenerate_from ev a vtype difficulty base_text w =
     (let a_dir = path_join (upload_root ev) (a_id a);
          same_key = (\<lambda>v. assignment_id v = a_id a \<and> variant_type v = vtype);
          existing_version = find same_key (versions (db w))
      in if vtype = ascii ''quiz'' then
           (case gen_quiz (decoder_of ev) (gemini ev) (subject a) base_text difficulty (client w) of
              (Inl e, c') \<Rightarrow> (Inl e, w\<lparr>client := c'\<rparr>)
            | (Inr quiz, c') \<Rightarrow>
                (case write_json ev quiz
                        (path_join a_dir (ascii ''quiz_'' @ difficulty @ ascii ''.json'')) of
                   Inl e \<Rightarrow> (Inl e, w\<lparr>client := c'\<rparr>)
                 | Inr quiz_path \<Rightarrow>
                     (case existing_version of
                        Some ex \<Rightarrow>
                          (let renew = (\<lambda>v. v\<lparr>content_text := quiz,
                                               assets := JString (json_dumps ev
                                                 (JObject [(ascii ''quiz_json'', JString quiz_path)]))\<rparr>);
                               d' = session_commit a
                                      ((db w)\<lparr>versions := update_first same_key renew (versions (db w))\<rparr>)
                           in (Inr (Some (renew ex)), w\<lparr>client := c', db := d'\<rparr>))
                      | None \<Rightarrow>
                          (case persist_variant a (ascii ''quiz'') (subject a) quiz
                                  [(ascii ''quiz_json'', JString quiz_path)] (db w) of
                             (Inl e, d') \<Rightarrow> (Inl e, w\<lparr>client := c', db := d'\<rparr>)
                           | (Inr u, d') \<Rightarrow> (Inr None, w\<lparr>client := c', db := d'\<rparr>)))))
         else (Inl (PyExc ValueError
                      (ascii ''Regeneration not supported for variant type: '' @ vtype)), w))"

definition regenerate_variant ::
  "env \<Rightarrow> assignment \<Rightarrow> pystr \<Rightarrow> pystr \<Rightarrow> world \<Rightarrow> (py_exc + assignment_version option) \<times> world"
where
  "regenerate_variant ev a vtype difficulty w =
     (case extract_base_text (stored ev) (original_content a) (file_path a) of
        Inl e \<Rightarrow> (Inl e, w)
      | Inr base_text \<Rightarrow> regenerate_from ev a vtype difficulty base_text w)"

text \<open>The quiz variant rows of an assignment.\<close>

definition is_quiz_of :: "assignment \<Rightarrow> assignment_version \<Rightarrow> bool" where
  "is_quiz_of a v = (assignment_id v = a_id a \<and> variant_type v = ascii ''quiz'')"

text \<open>
  An environment and a starting state for running the model: the reference decoder,
  a given backend, no stored document, neither \<open>manim\<close> nor \<open>ffmpeg\<close> installed, the
  104 bytes of the placeholder audio, and an upload directory \<open>uploads\<close> that holds
  the assignment directories and no directory below them: a file can be created at
  a path of at most two slashes, and \<open>open\<close> raises \<open>FileNotFoundError\<close> for a longer
  one; no call made, no file, empty tables.
\<close>

definition upload_tree_open :: "pystr \<Rightarrow> py_exc option" where
  "upload_tree_open p =
     (if length (filter (\<lambda>c. c = 47) p) \<le> 2 then None
      else Some (PyExc (OtherError (ascii ''FileNotFoundError''))
                   (ascii ''[Errno 2] No such file or directory: '' @ [39] @ p @ [39])))"

definition offline_env :: "backend \<Rightarrow> env" where
  "offline_env generate_content =
     \<lparr>decoder_of = json_loads, gemini = generate_content, stored = (\<lambda>p. None),
      manim_tool = (\<lambda>n. NotInstalled), ffmpeg_tool = (\<lambda>n. NotInstalled),
      speech = (\<lambda>script. 104), py_str = (\<lambda>v. []), json_dumps = (\<lambda>v. []),
      default_manim_code = (\<lambda>t. []), upload_root = ascii ''uploads'',
      open_w = upload_tree_open\<rparr>"

definition empty_world :: world where
  "empty_world =
     \<lparr>client = \<lparr>calls = 0, sleeps = []\<rparr>,
      media = \<lparr>files = (\<lambda>p. None), ffmpeg_runs = 0, manim_runs = 0\<rparr>,
      db = \<lparr>assignments = [], versions = [], flushed = []\<rparr>\<rparr>"

(* PROPERTIES *)

section \<open>Properties\<close>

subsection \<open>Evaluation of the model on concrete inputs\<close>

text \<open>
  The fuel of the reference decoder is a numeral when a concrete document is decoded;
  these are the equations of the three scanners for such a fuel.
\<close>

lemma scan_numeral:
  "scan_value (numeral k) s = scan_value (Suc (pred_numeral k)) s"
  "scan_elems (numeral k) acc s = scan_elems (Suc (pred_numeral k)) acc s"
  "scan_pairs (numeral k) d s = scan_pairs (Suc (pred_numeral k)) d s"
  by (simp_all only: numeral_eq_Suc)

lemmas scan_fuel =
  scan_value.simps(2,3)[of "pred_numeral k" for k, folded scan_numeral]
  scan_elems.simps(2)[of "pred_numeral k" for k, folded scan_numeral]
  scan_pairs.simps(2)[of "pred_numeral k" for k, folded scan_numeral]

lemmas parse_eval =
  ascii_def strip_def isspace_def fence_def ci_json_def fenced_block_def extract_object_def
  closes_def replacements_def normalise_punctuation_def replace_char_def clean_response_def
  try_parse_def parse_json_def rfind_char_def dict_overlay_def dict_get_def
  json_ws_def skip_ws_def is_digit_def hex_val_def hex4_def unicode_escape_def escape_char_def
  digits_val_def exponent_def scan_number_def scan_literal_def json_loads_def Let_def scan_fuel

subsection \<open>The repair step\<close>

lemma dropWhile_all: "(\<forall>x \<in> set (dropWhile P s). P x) \<longleftrightarrow> (\<forall>x \<in> set s. P x)"
  by (induction s) auto

lemma strip_blank: "strip s = [] \<longleftrightarrow> (\<forall>c \<in> set s. isspace c)"
  by (simp add: strip_def dropWhile_all)

lemma map_of_rev_distinct: "distinct (map fst xs) \<Longrightarrow> map_of (rev xs) = map_of xs"
  by (metis distinct_rev rev_map map_of_inject_set set_rev)

lemma fst_set_update_foldl:
  "fst ` set (foldl (\<lambda>d kv. AList.update (fst kv) (snd kv) d) a b) = fst ` set a \<union> fst ` set b"
  by (induction b arbitrary: a) (auto simp: dom_update)

lemma dict_overlay_keys: "fst ` set (dict_overlay a b) = fst ` set a \<union> fst ` set b"
  unfolding dict_overlay_def by (rule fst_set_update_foldl)

lemma map_of_dict_overlay_rev: "map_of (dict_overlay a b) = map_of a ++ map_of (rev b)"
  unfolding dict_overlay_def
proof (induction b arbitrary: a)
  case Nil
  show ?case by simp
next
  case (Cons kv b)
  show ?case
    by (cases kv) (simp add: Cons.IH update_conv' map_add_upd_left del: map_add_assoc, simp add:  Map.map_add_def fun_eq_iff split: option.splits)
qed

lemma map_of_dict_overlay:
  "distinct (map fst b) \<Longrightarrow> map_of (dict_overlay a b) = map_of a ++ map_of b"
  by (simp add: map_of_dict_overlay_rev map_of_rev_distinct)

lemma parse_json_cases:
  "parse_json loads text fb = fb \<or>
   (\<exists>parsed. loads (clean_response text) = Inr (JObject parsed) \<and> strip text \<noteq> [] \<and>
      parse_json loads text fb = dict_overlay fb parsed)"
  apply (simp add: parse_json_def try_parse_def split: sum.splits)
  apply (intro allI impI conjI)
  subgoal for v by (cases v) auto
  done

text \<open>
  C1. For every response text, every decoder and every fallback, the result of
  \<open>_parse_json\<close> has every key of the fallback; a response that is empty or all
  white space gives the fallback itself; and when the cleaned text decodes to an
  object, the result is the fallback overlaid with the fields of that object, the
  parsed field winning where both have the key. (A dictionary has one entry for
  each key, which is the hypothesis on \<open>parsed\<close>.)
\<close>

theorem parse_json_fallback_overlay:
  "fst ` set fallback_keys \<subseteq> fst ` set (parse_json loads text fallback_keys) \<and>
   ((\<forall>c \<in> set text. isspace c) \<longrightarrow> parse_json loads text fallback_keys = fallback_keys) \<and>
   (\<not> (\<forall>c \<in> set text. isspace c) \<and> loads (clean_response text) = Inr (JObject parsed) \<and>
      distinct (map fst parsed) \<longrightarrow>
      parse_json loads text fallback_keys = dict_overlay fallback_keys parsed \<and>
      map_of (parse_json loads text fallback_keys) = map_of fallback_keys ++ map_of parsed)"
proof (intro conjI impI)
  show "fst ` set fallback_keys \<subseteq> fst ` set (parse_json loads text fallback_keys)"
    using parse_json_cases [of loads "text" fallback_keys] by (force simp: dict_overlay_keys)
next
  assume "\<forall>c \<in> set text. isspace c"
  then have "strip text = []" by (simp add: strip_blank)
  then show "parse_json loads text fallback_keys = fallback_keys" by (simp add: parse_json_def)
next
  assume h: "\<not> (\<forall>c \<in> set text. isspace c) \<and> loads (clean_response text) = Inr (JObject parsed) \<and>
      distinct (map fst parsed)"
  then have ne: "strip text \<noteq> []" "text \<noteq> []" by (auto simp: strip_blank)
  with h show eq: "parse_json loads text fallback_keys = dict_overlay fallback_keys parsed"
    by (simp add: parse_json_def try_parse_def)
  from h show "map_of (parse_json loads text fallback_keys) = map_of fallback_keys ++ map_of parsed"
    by (simp add: eq map_of_dict_overlay)
qed

text \<open>
  C10. When the cleaned text decodes to a value that is not an object (an array, a
  string, a number, a boolean, \<open>null\<close>), merging it into the fallback raises
  \<open>TypeError\<close> inside the \<open>try\<close> block, the catch-all handler absorbs it, and
  \<open>_parse_json\<close> returns the fallback unchanged. \<open>parse_json\<close> is a total function
  into dictionaries: no exception leaves it and it returns no other kind of value.
\<close>

theorem parse_json_non_object:
  "loads (clean_response text) = Inr v \<and> \<not> is_mapping v \<longrightarrow>
     (\<exists>msg. try_parse loads (clean_response text) fallback_keys = Inl (PyExc TypeError msg)) \<and>
     parse_json loads text fallback_keys = fallback_keys"
  by (cases v) (simp_all add: parse_json_def try_parse_def)


theorem parse_json_fallback_overlay_witness:
  \<open>list_all isspace (ascii '' 
 '') \<and>
   parse_json json_loads (ascii '' 
 '') [(ascii ''text'', JString (ascii ''lesson'')), (ascii ''highlights'', JArray [])] =
     [(ascii ''text'', JString (ascii ''lesson'')), (ascii ''highlights'', JArray [])] \<and>
   \<not> (\<forall>c \<in> set (ascii ''Sure: ```json
{"text": "Hi", "n": [1, 2,],}
```''). isspace c) \<and>
   json_loads (clean_response (ascii ''Sure: ```json
{"text": "Hi", "n": [1, 2,],}
```'')) = Inr (JObject [(ascii ''text'', JString (ascii ''Hi'')), (ascii ''n'', JArray [JInt 1, JInt 2])]) \<and>
   parse_json json_loads (ascii ''Sure: ```json
{"text": "Hi", "n": [1, 2,],}
```'') [(ascii ''text'', JString (ascii ''lesson'')), (ascii ''highlights'', JArray [])] =
     [(ascii ''text'', JString (ascii ''Hi'')), (ascii ''highlights'', JArray []),
      (ascii ''n'', JArray [JInt 1, JInt 2])]\<close>
proof -
  let ?fb = "[(ascii ''text'', JString (ascii ''lesson'')), (ascii ''highlights'', JArray [])]"
  let ?blank = "ascii '' 
 ''"
  let ?t = \<open>ascii ''Sure: ```json
{"text": "Hi", "n": [1, 2,],}
```''\<close>
  let ?obj = "[(ascii ''text'', JString (ascii ''Hi'')), (ascii ''n'', JArray [JInt 1, JInt 2])]"
  have b: "\<forall>c \<in> set ?blank. isspace c"
    by (simp add: ascii_def isspace_def)
  have b': "list_all isspace ?blank"
    by (simp add: ascii_def isspace_def)
  have nb: "\<not> (\<forall>c \<in> set ?t. isspace c)"
    by (simp add: ascii_def isspace_def)
  have p: "json_loads (clean_response ?t) = Inr (JObject ?obj)"
    by (simp add: parse_eval)
  have d: "distinct (map fst ?obj)"
    by (simp add: ascii_def)
  have o: "dict_overlay ?fb ?obj =
      [(ascii ''text'', JString (ascii ''Hi'')), (ascii ''highlights'', JArray []),
       (ascii ''n'', JArray [JInt 1, JInt 2])]"
    by (simp add: dict_overlay_def ascii_def)
  from parse_json_fallback_overlay [of ?fb json_loads ?blank ?obj] b
  have 1: "parse_json json_loads ?blank ?fb = ?fb" by blast
  from parse_json_fallback_overlay [of ?fb json_loads ?t ?obj] nb p d
  have 2: "parse_json json_loads ?t ?fb = dict_overlay ?fb ?obj" by blast
  from b' 1 nb p 2 o show ?thesis by (simp only: simp_thms)
qed

theorem parse_json_non_object_witness:
  \<open>json_loads (clean_response (ascii ''["Q1", "Q2"]'')) = Inr (JArray [JString (ascii ''Q1''), JString (ascii ''Q2'')]) \<and>
   \<not> is_mapping (JArray [JString (ascii ''Q1''), JString (ascii ''Q2'')]) \<and>
   (\<exists>msg. try_parse json_loads (clean_response (ascii ''["Q1", "Q2"]'')) [(ascii ''questions'', JArray [])] =
      Inl (PyExc TypeError msg)) \<and>
   parse_json json_loads (ascii ''["Q1", "Q2"]'') [(ascii ''questions'', JArray [])] = [(ascii ''questions'', JArray [])]\<close>
proof -
  let ?t = \<open>ascii ''["Q1", "Q2"]''\<close>
  let ?v = "JArray [JString (ascii ''Q1''), JString (ascii ''Q2'')]"
  have p: "json_loads (clean_response ?t) = Inr ?v"
    by (simp add: parse_eval)
  have n: "\<not> is_mapping ?v" by simp
  from parse_json_non_object [of json_loads ?t ?v "[(ascii ''questions'', JArray [])]"] p n
  show ?thesis by blast
qed


subsection \<open>The generation client\<close>

declare retry_loop.simps [simp del]

lemma add_parts_concat:
  "add_parts result ps = result @ concat (concat (map (\<lambda>p. case p of None \<Rightarrow> [] | Some t \<Rightarrow> [t]) ps))"
  by (induction ps arbitrary: result) (auto split: option.splits)

lemma add_candidates_concat:
  "add_candidates result cands = result @ concat (all_part_texts cands)"
  by (induction cands arbitrary: result)
     (auto simp: all_part_texts_def add_parts_concat split: option.splits)

lemma call_gemini_twice:
  "call_gemini_with_retry g 2 c =
     (case g (calls c) of
        Returns resp \<Rightarrow> (Inr (response_text resp), c\<lparr>calls := calls c + 1\<rparr>)
      | Raises e1 \<Rightarrow>
          (case g (calls c + 1) of
             Returns resp \<Rightarrow>
               (Inr (response_text resp), c\<lparr>calls := calls c + 2, sleeps := sleeps c @ [2]\<rparr>)
           | Raises e2 \<Rightarrow> (Inl e2, c\<lparr>calls := calls c + 2, sleeps := sleeps c @ [2]\<rparr>)))"
  unfolding call_gemini_with_retry_def
  by (simp add: retry_loop.simps [of _ _ 0] retry_loop.simps [of _ _ "Suc 0"]
        split: outcome.splits)

text \<open>
  C7. With the default \<open>max_retries = 2\<close>, which every caller uses,
  \<open>_call_gemini_with_retry\<close> calls the backend once or twice; it sleeps 2 seconds
  between the two attempts and at no other time; when the last attempt made raises,
  that very exception is the one that leaves the function, and an exception leaves
  it only from a second attempt; when the last attempt returns a response, the text
  of that response is returned, and for a multi-part response this text is the
  concatenation of the texts of all its parts.
\<close>

theorem call_gemini_with_retry_two_attempts:
  "call_gemini_with_retry generate_content 2 c = (r, c') \<longrightarrow>
     calls c < calls c' \<and> calls c' \<le> calls c + 2 \<and>
     sleeps c' = sleeps c @ replicate (calls c' - calls c - 1) 2 \<and>
     (\<forall>e. generate_content (calls c' - 1) = Raises e \<longrightarrow> r = Inl e) \<and>
     (\<forall>e. r = Inl e \<longrightarrow> calls c' = calls c + 2 \<and> generate_content (calls c + 1) = Raises e) \<and>
     (\<forall>resp. generate_content (calls c' - 1) = Returns resp \<longrightarrow> r = Inr (response_text resp)) \<and>
     response_text (MultiPart cands) = concat (all_part_texts cands)"
  by (auto simp: call_gemini_twice add_candidates_concat split: outcome.splits)

theorem call_gemini_with_retry_two_attempts_witness:
  "call_gemini_with_retry
     (\<lambda>n. if n = 0 then Raises (PyExc (OtherError (ascii ''DeadlineExceeded'')) (ascii ''504 Deadline Exceeded''))
          else Returns (MultiPart [Some [Some (ascii ''{\"a\": ''), None, Some (ascii ''1}'')], None]))
     2 \<lparr>calls = 0, sleeps = []\<rparr> =
     (Inr (ascii ''{\"a\": 1}''), \<lparr>calls = 2, sleeps = [2]\<rparr>) \<and>
   call_gemini_with_retry
     (\<lambda>n. if n = 0 then Raises (PyExc (OtherError (ascii ''DeadlineExceeded'')) (ascii ''first''))
          else Raises (PyExc (OtherError (ascii ''DeadlineExceeded'')) (ascii ''second'')))
     2 \<lparr>calls = 0, sleeps = []\<rparr> =
     (Inl (PyExc (OtherError (ascii ''DeadlineExceeded'')) (ascii ''second'')), \<lparr>calls = 2, sleeps = [2]\<rparr>)"
proof -
  let ?g = "\<lambda>n::nat. if n = 0 then Raises (PyExc (OtherError (ascii ''DeadlineExceeded'')) (ascii ''504 Deadline Exceeded''))
          else Returns (MultiPart [Some [Some (ascii ''{\"a\": ''), None, Some (ascii ''1}'')], None])"
  let ?h = "\<lambda>n::nat. if n = 0 then Raises (PyExc (OtherError (ascii ''DeadlineExceeded'')) (ascii ''first''))
          else Raises (PyExc (OtherError (ascii ''DeadlineExceeded'')) (ascii ''second''))"
  let ?c = "\<lparr>calls = 0, sleeps = []\<rparr>"
  obtain r c' where 1: "call_gemini_with_retry ?g 2 ?c = (r, c')" by (cases "call_gemini_with_retry ?g 2 ?c")
  have c1: "c' = \<lparr>calls = 2, sleeps = [2]\<rparr>" using 1 by (auto simp: call_gemini_twice)
  from call_gemini_with_retry_two_attempts [of ?g ?c r c'] 1
  have "\<forall>resp. ?g (calls c' - 1) = Returns resp \<longrightarrow> r = Inr (response_text resp)" by blast
  then have r1: "r = Inr (ascii ''{\"a\": 1}'')" by (simp add: c1 ascii_def)
  obtain s d' where 2: "call_gemini_with_retry ?h 2 ?c = (s, d')" by (cases "call_gemini_with_retry ?h 2 ?c")
  have c2: "d' = \<lparr>calls = 2, sleeps = [2]\<rparr>" using 2 by (auto simp: call_gemini_twice)
  from call_gemini_with_retry_two_attempts [of ?h ?c s d'] 2
  have "\<forall>e. ?h (calls d' - 1) = Raises e \<longrightarrow> s = Inl e" by blast
  then have r2: "s = Inl (PyExc (OtherError (ascii ''DeadlineExceeded'')) (ascii ''second''))" by (simp add: c2)
  show ?thesis using 1 2 r1 r2 c1 c2 by simp
qed


subsection \<open>The quiz generator\<close>

lemma parse_json_keeps_keys:
  "fst ` set fb \<subseteq> fst ` set (parse_json loads t fb)"
  using parse_json_cases [of loads t fb] by (force simp: dict_overlay_keys)

lemma parse_json_key_fallback:
  assumes "\<not> supplies_key loads t k"
  shows "map_of (parse_json loads t fb) k = map_of fb k"
proof -
  from parse_json_cases [of loads t fb] show ?thesis
  proof
    assume "parse_json loads t fb = fb"
    then show ?thesis by simp
  next
    assume "\<exists>kvs. loads (clean_response t) = Inr (JObject kvs) \<and> strip t \<noteq> [] \<and>
      parse_json loads t fb = dict_overlay fb kvs"
    then obtain kvs where k: "loads (clean_response t) = Inr (JObject kvs)" "strip t \<noteq> []"
      "parse_json loads t fb = dict_overlay fb kvs" by blast
    with assms have "k \<notin> fst ` set kvs" by (simp add: supplies_key_def)
    then have "map_of (rev kvs) k = None" by (simp add: map_of_eq_None_iff)
    then show ?thesis by (simp add: k map_of_dict_overlay_rev map_add_def)
  qed
qed

lemma call_gemini_returns:
  "call_gemini_with_retry g 2 c = (Inr t, c1) \<Longrightarrow>
     \<exists>resp. g (calls c1 - 1) = Returns resp \<and> t = response_text resp"
  by (auto simp: call_gemini_twice split: outcome.splits)

lemma gen_quiz_unfold:
  "gen_quiz loads g subj text difficulty c =
     (case call_gemini_with_retry g 2 c of
        (Inl e, c1) \<Rightarrow> (Inl e, c1)
      | (Inr t1, c1) \<Rightarrow>
          (case question_count (parse_json loads t1 (quiz_fallback subj)) of
             Inl e \<Rightarrow> (Inl e, c1)
           | Inr k \<Rightarrow>
               if k > 0 then (Inr (parse_json loads t1 (quiz_fallback subj)), c1)
               else
                 (case call_gemini_with_retry g 2 c1 of
                    (Inl e, c2) \<Rightarrow> (Inl e, c2)
                  | (Inr t2, c2) \<Rightarrow>
                      (case question_count (parse_json loads t2 (quiz_fallback subj)) of
                         Inl e \<Rightarrow> (Inl e, c2)
                       | Inr k \<Rightarrow> (Inr (parse_json loads t2 (quiz_fallback subj)), c2)))))"
  by (simp add: gen_quiz_def numeral_2_eq_2 Let_def split: prod.splits sum.splits)

lemma gen_quiz_last_response:
  assumes "gen_quiz loads g subj text difficulty c = (Inr result, c')"
  shows "\<exists>resp. g (calls c' - 1) = Returns resp \<and>
           result = parse_json loads (response_text resp) (quiz_fallback subj)"
  using assms
  by (auto simp: gen_quiz_unfold split: prod.splits sum.splits if_splits dest: call_gemini_returns)

lemma quiz_fallback_type:
  "map_of (quiz_fallback subj) (ascii ''quiz_type'') = Some (JString (quiz_type_of subj))"
  by (simp add: quiz_fallback_def ascii_def)

text \<open>
  C4, as amended. Whenever the quiz generator returns a structure, it has the key
  \<open>quiz_type\<close>; the structure is the repair of the last response received, over the
  fallback of the subject; and the value of \<open>quiz_type\<close> is the schema type of the
  subject unless that last response decoded to an object with a \<open>quiz_type\<close> field
  of its own, which then wins as every parsed field does.
\<close>

theorem gen_quiz_quiz_type:
  "gen_quiz loads generate_content subj text difficulty c = (Inr result, c') \<longrightarrow>
     ascii ''quiz_type'' \<in> fst ` set result \<and>
     (\<exists>resp. generate_content (calls c' - 1) = Returns resp \<and>
        result = parse_json loads (response_text resp) (quiz_fallback subj) \<and>
        (\<not> supplies_key loads (response_text resp) (ascii ''quiz_type'') \<longrightarrow>
           map_of result (ascii ''quiz_type'') = Some (JString (quiz_type_of subj))))"
proof
  assume a: "gen_quiz loads generate_content subj text difficulty c = (Inr result, c')"
  from gen_quiz_last_response [OF a] obtain resp where
    r: "generate_content (calls c' - 1) = Returns resp"
       "result = parse_json loads (response_text resp) (quiz_fallback subj)" by blast
  have "ascii ''quiz_type'' \<in> fst ` set (quiz_fallback subj)"
    by (simp add: quiz_fallback_def)
  with parse_json_keeps_keys have k: "ascii ''quiz_type'' \<in> fst ` set result"
    unfolding r(2) by blast
  have "\<not> supplies_key loads (response_text resp) (ascii ''quiz_type'') \<longrightarrow>
           map_of result (ascii ''quiz_type'') = Some (JString (quiz_type_of subj))"
    by (simp add: r(2) parse_json_key_fallback quiz_fallback_type)
  with k r show "ascii ''quiz_type'' \<in> fst ` set result \<and>
     (\<exists>resp. generate_content (calls c' - 1) = Returns resp \<and>
        result = parse_json loads (response_text resp) (quiz_fallback subj) \<and>
        (\<not> supplies_key loads (response_text resp) (ascii ''quiz_type'') \<longrightarrow>
           map_of result (ascii ''quiz_type'') = Some (JString (quiz_type_of subj))))"
    by blast
qed

lemmas quiz_eval =
  gen_quiz_unfold call_gemini_twice quiz_fallback_def quiz_type_of_def lower_def lower_char_def
  question_count_def

theorem gen_quiz_quiz_type_witness:
  \<open>gen_quiz json_loads (\<lambda>n. Returns (Simple (ascii ''{"questions": ["Why does ice float?"]}'')))
     (ascii ''Science'') (ascii ''Ice is less dense than water.'') (ascii ''easy'')
     \<lparr>calls = 0, sleeps = []\<rparr> =
     (Inr [(ascii ''summary'', JString (ascii ''Science practice exercise'')),
           (ascii ''quiz_type'', JString (ascii ''practice_repeatable'')),
           (ascii ''questions'', JArray [JString (ascii ''Why does ice float?'')])],
      \<lparr>calls = 1, sleeps = []\<rparr>) \<and>
   \<not> supplies_key json_loads (ascii ''{"questions": ["Why does ice float?"]}'') (ascii ''quiz_type'') \<and>
   map_of [(ascii ''summary'', JString (ascii ''Science practice exercise'')),
           (ascii ''quiz_type'', JString (ascii ''practice_repeatable'')),
           (ascii ''questions'', JArray [JString (ascii ''Why does ice float?'')])] (ascii ''quiz_type'') =
     Some (JString (quiz_type_of (ascii ''Science'')))\<close>
proof -
  let ?t = \<open>ascii ''{"questions": ["Why does ice float?"]}''\<close>
  let ?g = "\<lambda>n::nat. Returns (Simple ?t)"
  let ?r = "[(ascii ''summary'', JString (ascii ''Science practice exercise'')),
           (ascii ''quiz_type'', JString (ascii ''practice_repeatable'')),
           (ascii ''questions'', JArray [JString (ascii ''Why does ice float?'')])]"
  let ?c' = "\<lparr>calls = 1, sleeps = []\<rparr>"
  have e: "gen_quiz json_loads ?g (ascii ''Science'') (ascii ''Ice is less dense than water.'')
      (ascii ''easy'') \<lparr>calls = 0, sleeps = []\<rparr> = (Inr ?r, ?c')"
    by (simp add: quiz_eval parse_eval)
  have n: "\<not> supplies_key json_loads ?t (ascii ''quiz_type'')"
    by (simp add: supplies_key_def parse_eval)
  from gen_quiz_quiz_type [of json_loads ?g "ascii ''Science''" "ascii ''Ice is less dense than water.''"
      "ascii ''easy''" "\<lparr>calls = 0, sleeps = []\<rparr>" ?r ?c'] e
  obtain resp where "?g (calls ?c' - 1) = Returns resp"
     "\<not> supplies_key json_loads (response_text resp) (ascii ''quiz_type'') \<longrightarrow>
        map_of ?r (ascii ''quiz_type'') = Some (JString (quiz_type_of (ascii ''Science'')))"
    by blast
  with n have "map_of ?r (ascii ''quiz_type'') = Some (JString (quiz_type_of (ascii ''Science'')))"
    by auto
  with e n show ?thesis by (simp only: simp_thms)
qed


text \<open>
  C4 as stated fails: for the subject \<open>math\<close>, whose schema type is \<open>practice\<close>, a
  backend that answers with an object of zero questions and \<open>"quiz_type": "standard"\<close>
  makes the generator return \<open>standard\<close>.
\<close>

theorem gen_quiz_quiz_type_counterexample:
  \<open>gen_quiz json_loads
     (\<lambda>n. Returns (Simple (ascii ''{"quiz_type": "standard", "questions": []}'')))
     (ascii ''math'') (ascii ''Solve 2x + 5 = 13'') (ascii ''medium'') \<lparr>calls = 0, sleeps = []\<rparr> =
     (Inr [(ascii ''summary'', JString (ascii ''math practice exercise'')),
           (ascii ''quiz_type'', JString (ascii ''standard'')),
           (ascii ''questions'', JArray [])],
      \<lparr>calls = 2, sleeps = []\<rparr>) \<and>
   quiz_type_of (ascii ''math'') = ascii ''practice''\<close>
  by (simp add: quiz_eval parse_eval)


text \<open>
  The fallback always has the key \<open>questions\<close>, so the repaired structure has it
  too and the inner \<open>result.get('timeline_events', [])\<close> is never the value counted.
\<close>

lemma question_count_questions_only:
  "question_count (parse_json loads t (quiz_fallback subj)) =
     py_len (dict_get (parse_json loads t (quiz_fallback subj)) (ascii ''questions'') JNull)"
proof -
  have "ascii ''questions'' \<in> fst ` set (quiz_fallback subj)"
    by (simp add: quiz_fallback_def)
  with parse_json_keeps_keys
  have "ascii ''questions'' \<in> fst ` set (parse_json loads t (quiz_fallback subj))" by blast
  then obtain v where "map_of (parse_json loads t (quiz_fallback subj)) (ascii ''questions'') = Some v"
    by (metis map_of_eq_None_iff not_None_eq)
  then show ?thesis by (simp add: question_count_def dict_get_def)
qed

text \<open>
  C3 at a history lesson. The first response is in the format the history prompt
  asks for, one timeline event and no \<open>questions\<close> key. The repaired structure holds
  that event, yet the count is 0; the generator calls the backend a second time, and
  when that response is empty it returns the fallback with no item at all: the
  first result, with its item, is lost.
\<close>

theorem gen_quiz_history_timeline_retried:
  \<open>parse_json json_loads
     (ascii ''{"quiz_type": "timeline_fill", "timeline_events": [{"year": "1776", "answer": "Declaration"}]}'')
     (quiz_fallback (ascii ''history'')) =
     [(ascii ''summary'', JString (ascii ''history practice exercise'')),
      (ascii ''quiz_type'', JString (ascii ''timeline_fill'')),
      (ascii ''questions'', JArray []),
      (ascii ''timeline_events'',
         JArray [JObject [(ascii ''year'', JString (ascii ''1776'')),
                          (ascii ''answer'', JString (ascii ''Declaration''))]])] \<and>
   question_count (parse_json json_loads
     (ascii ''{"quiz_type": "timeline_fill", "timeline_events": [{"year": "1776", "answer": "Declaration"}]}'')
     (quiz_fallback (ascii ''history''))) = Inr 0 \<and>
   gen_quiz json_loads
     (\<lambda>n. if n = 0
          then Returns (Simple (ascii ''{"quiz_type": "timeline_fill", "timeline_events": [{"year": "1776", "answer": "Declaration"}]}''))
          else Returns (Simple []))
     (ascii ''history'') (ascii ''The Declaration of Independence was signed in 1776.'') (ascii ''medium'')
     \<lparr>calls = 0, sleeps = []\<rparr> =
     (Inr [(ascii ''summary'', JString (ascii ''history practice exercise'')),
           (ascii ''quiz_type'', JString (ascii ''timeline_fill'')),
           (ascii ''questions'', JArray [])],
      \<lparr>calls = 2, sleeps = []\<rparr>)\<close>
proof -
  let ?t = \<open>ascii ''{"quiz_type": "timeline_fill", "timeline_events": [{"year": "1776", "answer": "Declaration"}]}''\<close>
  have p: "parse_json json_loads ?t (quiz_fallback (ascii ''history'')) =
     [(ascii ''summary'', JString (ascii ''history practice exercise'')),
      (ascii ''quiz_type'', JString (ascii ''timeline_fill'')),
      (ascii ''questions'', JArray []),
      (ascii ''timeline_events'',
         JArray [JObject [(ascii ''year'', JString (ascii ''1776'')),
                          (ascii ''answer'', JString (ascii ''Declaration''))]])]"
    by (simp add: quiz_eval parse_eval)
  have e: "parse_json json_loads [] (quiz_fallback (ascii ''history'')) =
      [(ascii ''summary'', JString (ascii ''history practice exercise'')),
           (ascii ''quiz_type'', JString (ascii ''timeline_fill'')),
           (ascii ''questions'', JArray [])]"
    by (simp add: parse_json_def quiz_eval ascii_def)
  have q: "question_count (parse_json json_loads ?t (quiz_fallback (ascii ''history''))) = Inr 0"
    unfolding p by (simp add: question_count_def dict_get_def ascii_def)
  have q': "question_count (parse_json json_loads [] (quiz_fallback (ascii ''history''))) = Inr 0"
    unfolding e by (simp add: question_count_def dict_get_def ascii_def)
  let ?g = "\<lambda>n::nat. if n = 0 then Returns (Simple ?t) else Returns (Simple [])"
  have c1: "call_gemini_with_retry ?g 2 \<lparr>calls = 0, sleeps = []\<rparr> =
      (Inr ?t, \<lparr>calls = Suc 0, sleeps = []\<rparr>)"
    by (simp add: call_gemini_twice)
  have c2: "call_gemini_with_retry ?g 2 \<lparr>calls = Suc 0, sleeps = []\<rparr> =
      (Inr [], \<lparr>calls = 2, sleeps = []\<rparr>)"
    by (simp add: call_gemini_twice)
  have g: "gen_quiz json_loads ?g (ascii ''history'')
      (ascii ''The Declaration of Independence was signed in 1776.'') (ascii ''medium'')
      \<lparr>calls = 0, sleeps = []\<rparr> =
      (Inr (parse_json json_loads [] (quiz_fallback (ascii ''history''))), \<lparr>calls = 2, sleeps = []\<rparr>)"
    by (simp add: gen_quiz_unfold c1 c2 q q')
  show ?thesis
    using p q g unfolding e by (simp only: simp_thms)
qed


subsection \<open>Muxing\<close>

text \<open>
  C8. When the video file is under 10000 bytes, \<open>_add_audio_to_video\<close> returns the
  video path it was given and the state is unchanged, so \<open>ffmpeg\<close> was not started;
  the block of the orchestrator that calls it does the same. When the run of
  \<open>ffmpeg\<close> fails (non-zero exit code, not installed, timed out, any other error)
  both return the video path; the function has no exceptional result at all.
\<close>

theorem mux_skipped_or_falls_back:
  "(\<forall>sz. files m video_path = Some sz \<and> sz < 10000 \<longrightarrow>
      add_audio_to_video ffmpeg video_path audio_path out_dir name m = (video_path, m) \<and>
      combine_video_audio ffmpeg video_path narration_audio out_dir m = (video_path, m)) \<and>
   (mux_failed (ffmpeg (ffmpeg_runs m)) \<longrightarrow>
      fst (add_audio_to_video ffmpeg video_path audio_path out_dir name m) = video_path \<and>
      fst (combine_video_audio ffmpeg video_path narration_audio out_dir m) = video_path)"
  by (auto simp: add_audio_to_video_def combine_video_audio_def Let_def
           split: option.splits process_outcome.splits)

theorem mux_skipped_or_falls_back_witness:
  "add_audio_to_video (\<lambda>n. Exited 0 (Some 90000)) (ascii ''u/visual_silent.mp4'') (ascii ''u/narration.mp3'')
     (ascii ''u'') (ascii ''visual.mp4'')
     \<lparr>files = (\<lambda>p. if p = ascii ''u/visual_silent.mp4'' then Some 40 else None), ffmpeg_runs = 0, manim_runs = 1\<rparr> =
     (ascii ''u/visual_silent.mp4'',
      \<lparr>files = (\<lambda>p. if p = ascii ''u/visual_silent.mp4'' then Some 40 else None), ffmpeg_runs = 0, manim_runs = 1\<rparr>) \<and>
   mux_failed TimedOut \<and>
   fst (add_audio_to_video (\<lambda>n. TimedOut) (ascii ''u/visual_silent.mp4'') (ascii ''u/narration.mp3'')
     (ascii ''u'') (ascii ''visual.mp4'')
     \<lparr>files = (\<lambda>p. if p = ascii ''u/visual_silent.mp4'' then Some 50000 else None), ffmpeg_runs = 0, manim_runs = 1\<rparr>) =
     ascii ''u/visual_silent.mp4''"
proof -
  let ?v = "ascii ''u/visual_silent.mp4''"
  let ?m = "\<lparr>files = (\<lambda>p. if p = ?v then Some (40::nat) else None), ffmpeg_runs = 0, manim_runs = 1\<rparr>"
  let ?m' = "\<lparr>files = (\<lambda>p. if p = ?v then Some (50000::nat) else None), ffmpeg_runs = 0, manim_runs = 1\<rparr>"
  have "files ?m ?v = Some 40 \<and> (40::nat) < 10000" by simp
  with mux_skipped_or_falls_back [of ?m ?v "\<lambda>n. Exited 0 (Some 90000)" "ascii ''u/narration.mp3''" "ascii ''u''"
      "ascii ''visual.mp4''" None]
  have 1: "add_audio_to_video (\<lambda>n. Exited 0 (Some 90000)) ?v (ascii ''u/narration.mp3'') (ascii ''u'')
      (ascii ''visual.mp4'') ?m = (?v, ?m)" by blast
  have f: "mux_failed ((\<lambda>n. TimedOut) (ffmpeg_runs ?m'))" by simp
  from mux_skipped_or_falls_back [of ?m' ?v "\<lambda>n. TimedOut" "ascii ''u/narration.mp3''" "ascii ''u''"
      "ascii ''visual.mp4''" None] f
  have 2: "fst (add_audio_to_video (\<lambda>n. TimedOut) ?v (ascii ''u/narration.mp3'') (ascii ''u'')
      (ascii ''visual.mp4'') ?m') = ?v" by blast
  from 1 2 show ?thesis by simp
qed

subsection \<open>The lesson text\<close>



lemma join_two: "join sep [a, b] = a @ sep @ b"
  by simp





subsection \<open>Persistence and the orchestrator\<close>

lemma versions_session_commit [simp]: "versions (session_commit a d) = versions d"
  by (simp add: session_commit_def)

lemma versions_session_rollback [simp]: "versions (session_rollback d) = versions d"
  by (simp add: session_rollback_def)

lemma unique_versions_commit [simp]: "unique_versions (session_commit a d) = unique_versions d"
  by (simp add: unique_versions_def)

lemma unique_versions_rollback [simp]: "unique_versions (session_rollback d) = unique_versions d"
  by (simp add: unique_versions_def)

lemma persist_variant_unique:
  "persist_variant a vtype subj content asset_paths d = (r, d') \<Longrightarrow> unique_versions d \<Longrightarrow>
     unique_versions d'"
  by (auto simp: persist_variant_def Let_def unique_versions_def split: if_splits)

lemma persist_variant_duplicate:
  "(a_id a, vtype) \<in> set (map version_key (versions d)) \<Longrightarrow>
     \<exists>msg. persist_variant a vtype subj content asset_paths d =
       (Inl (PyExc IntegrityError msg), session_rollback d)"
  by (simp add: persist_variant_def Let_def version_key_def)

lemma simplified_step_unique:
  "simplified_step ev a t w = (r, w') \<Longrightarrow> unique_versions (db w) \<Longrightarrow> unique_versions (db w')"
  by (auto simp: simplified_step_def Let_def split: prod.splits sum.splits
           dest: persist_variant_unique)

lemma audio_step_unique:
  "audio_step ev a t dir w = (r, w') \<Longrightarrow> unique_versions (db w) \<Longrightarrow> unique_versions (db w')"
  by (auto simp: audio_step_def Let_def split: prod.splits sum.splits option.splits
           dest: persist_variant_unique)

lemma visual_step_unique:
  "visual_step ev a t dir w = (r, w') \<Longrightarrow> unique_versions (db w) \<Longrightarrow> unique_versions (db w')"
  by (auto simp: visual_step_def Let_def split: prod.splits sum.splits option.splits
           dest: persist_variant_unique)

lemma quiz_step_unique:
  "quiz_step ev a t dir w = (r, w') \<Longrightarrow> unique_versions (db w) \<Longrightarrow> unique_versions (db w')"
  by (auto simp: quiz_step_def write_json_def Let_def split: prod.splits sum.splits option.splits
           dest: persist_variant_unique)

lemma generate_all_variants_unique:
  "generate_all_variants ev a w = (r, w') \<Longrightarrow> unique_versions (db w) \<Longrightarrow> unique_versions (db w')"
  unfolding generate_all_variants_def generate_from_def Let_def
  by (auto split: prod.splits sum.splits
           dest: simplified_step_unique audio_step_unique visual_step_unique quiz_step_unique)

lemma create_assignment_unique:
  "create_assignment ev new_id ttl subj teacher original_text path w = (r, w') \<Longrightarrow>
     unique_versions (db w) \<Longrightarrow> unique_versions (db w')"
  unfolding create_assignment_def Let_def session_add_flush_def
  by (auto split: prod.splits sum.splits if_splits dest!: generate_all_variants_unique
           simp: unique_versions_def)

lemma map_key_update_first:
  "(\<And>x. k (f x) = k x) \<Longrightarrow> map k (update_first P f xs) = map k xs"
  by (induction xs) auto

lemma regenerate_variant_unique:
  "regenerate_variant ev a vtype difficulty w = (r, w') \<Longrightarrow>
     unique_versions (db w) \<Longrightarrow> unique_versions (db w')"
  unfolding regenerate_variant_def regenerate_from_def write_json_def Let_def
  by (auto split: prod.splits sum.splits if_splits option.splits dest: persist_variant_unique
           simp: unique_versions_def map_key_update_first version_key_def)

text \<open>
  C6. The rows of \<open>assignment_versions\<close> have pairwise different
  \<open>(assignment_id, variant_type)\<close>, and this is kept by every operation that writes
  to the table: \<open>_persist_variant\<close>, \<open>regenerate_variant\<close> and \<open>create_assignment\<close>,
  whatever their outcome. The unique index is what enforces it: persisting a
  variant whose pair is already there raises \<open>IntegrityError\<close>, and the table is
  left as it was.
\<close>

theorem unique_versions_enforced:
  "unique_versions d \<and> unique_versions (db w) \<longrightarrow>
     unique_versions (snd (persist_variant a vtype subj content asset_paths d)) \<and>
     ((a_id a, vtype) \<in> set (map version_key (versions d)) \<longrightarrow>
        (\<exists>msg. fst (persist_variant a vtype subj content asset_paths d) = Inl (PyExc IntegrityError msg)) \<and>
        versions (snd (persist_variant a vtype subj content asset_paths d)) = versions d) \<and>
     unique_versions (db (snd (regenerate_variant ev a vtype difficulty w))) \<and>
     unique_versions (db (snd (create_assignment ev new_id ttl subj teacher original_text path w)))"
proof (intro impI conjI)
  assume u: "unique_versions d \<and> unique_versions (db w)"
  show "unique_versions (snd (persist_variant a vtype subj content asset_paths d))"
    using u persist_variant_unique [OF surjective_pairing] by blast
  show "unique_versions (db (snd (regenerate_variant ev a vtype difficulty w)))"
    using u regenerate_variant_unique [OF surjective_pairing] by blast
  show "unique_versions (db (snd (create_assignment ev new_id ttl subj teacher original_text path w)))"
    using u create_assignment_unique [OF surjective_pairing] by blast
next
  assume k: "(a_id a, vtype) \<in> set (map version_key (versions d))"
  from persist_variant_duplicate [OF k, of subj content asset_paths]
  obtain msg where m: "persist_variant a vtype subj content asset_paths d =
       (Inl (PyExc IntegrityError msg), session_rollback d)" by blast
  show "\<exists>msg. fst (persist_variant a vtype subj content asset_paths d) = Inl (PyExc IntegrityError msg)"
    by (simp add: m)
  show "versions (snd (persist_variant a vtype subj content asset_paths d)) = versions d"
    by (simp add: m)
qed


theorem unique_versions_enforced_witness:
  "unique_versions
     \<lparr>assignments = [], versions = [\<lparr>assignment_id = ascii ''a1'', variant_type = ascii ''quiz'',
        version_subject = ascii ''math'', content_text = [], assets = JObject [], ready = True\<rparr>], flushed = []\<rparr> \<and>
   (\<exists>msg. fst (persist_variant
       \<lparr>a_id = ascii ''a1'', title = ascii ''T'', subject = ascii ''math'', teacher_id = None,
         original_content = Some (ascii ''x''), file_path = None, status = Ready, error_message = None\<rparr>
       (ascii ''quiz'') (ascii ''math'') [] []
       \<lparr>assignments = [], versions = [\<lparr>assignment_id = ascii ''a1'', variant_type = ascii ''quiz'',
        version_subject = ascii ''math'', content_text = [], assets = JObject [], ready = True\<rparr>], flushed = []\<rparr>) =
      Inl (PyExc IntegrityError msg)) \<and>
   versions (snd (persist_variant
       \<lparr>a_id = ascii ''a1'', title = ascii ''T'', subject = ascii ''math'', teacher_id = None,
         original_content = Some (ascii ''x''), file_path = None, status = Ready, error_message = None\<rparr>
       (ascii ''quiz'') (ascii ''math'') [] []
       \<lparr>assignments = [], versions = [\<lparr>assignment_id = ascii ''a1'', variant_type = ascii ''quiz'',
        version_subject = ascii ''math'', content_text = [], assets = JObject [], ready = True\<rparr>], flushed = []\<rparr>)) =
     [\<lparr>assignment_id = ascii ''a1'', variant_type = ascii ''quiz'',
        version_subject = ascii ''math'', content_text = [], assets = JObject [], ready = True\<rparr>]"
proof -
  let ?v = "\<lparr>assignment_id = ascii ''a1'', variant_type = ascii ''quiz'',
        version_subject = ascii ''math'', content_text = [], assets = JObject [], ready = True\<rparr>"
  let ?d = "\<lparr>assignments = [], versions = [?v], flushed = []\<rparr>"
  let ?a = "\<lparr>a_id = ascii ''a1'', title = ascii ''T'', subject = ascii ''math'', teacher_id = None,
         original_content = Some (ascii ''x''), file_path = None, status = Ready, error_message = None\<rparr>"
  let ?w = "\<lparr>client = \<lparr>calls = 0, sleeps = []\<rparr>,
             media = \<lparr>files = (\<lambda>p. None), ffmpeg_runs = 0, manim_runs = 0\<rparr>, db = ?d\<rparr>"
  have u: "unique_versions ?d" by (simp add: unique_versions_def)
  then have uw: "unique_versions ?d \<and> unique_versions (db ?w)" by simp
  have k: "(a_id ?a, ascii ''quiz'') \<in> set (map version_key (versions ?d))"
    by (simp add: version_key_def)
  from unique_versions_enforced [of ?d ?w ?a "ascii ''quiz''" "ascii ''math''" "[]" "[]"] uw k
  have "(\<exists>msg. fst (persist_variant ?a (ascii ''quiz'') (ascii ''math'') [] [] ?d) = Inl (PyExc IntegrityError msg)) \<and>
        versions (snd (persist_variant ?a (ascii ''quiz'') (ascii ''math'') [] [] ?d)) = versions ?d"
    by blast
  with u show ?thesis by simp
qed


lemma write_object_Nil: "write_object a [] = []"
  by (simp add: write_object_def)








lemma length_update_first [simp]: "length (update_first P f xs) = length xs"
  by (induction xs) auto

subsection \<open>Regenerating the quiz\<close>


lemma is_quiz_of_renew [simp]:
  "is_quiz_of a (x\<lparr>content_text := q, assets := p\<rparr>) = is_quiz_of a x"
  by (simp add: is_quiz_of_def)








text \<open>
  A quiz file that cannot be created, as for a difficulty with a slash in it: the
  exception of \<open>open\<close> is raised after the generation and before anything is stored.
\<close>

lemma regenerate_variant_unwritable:
  "extract_base_text (stored ev) (original_content a) (file_path a) = Inr t \<Longrightarrow>
   gen_quiz (decoder_of ev) (gemini ev) (subject a) t difficulty (client w) = (Inr quiz, c') \<Longrightarrow>
   open_w ev (path_join (path_join (upload_root ev) (a_id a))
                (ascii ''quiz_'' @ difficulty @ ascii ''.json'')) = Some e \<Longrightarrow>
   regenerate_variant ev a (ascii ''quiz'') difficulty w = (Inl e, w\<lparr>client := c'\<rparr>)"
  by (simp add: regenerate_variant_def regenerate_from_def write_json_def)

text \<open>
  So for the difficulty \<open>a/b\<close>: the quiz is generated, the file
  \<open>uploads/a1/quiz_a/b.json\<close> cannot be created, and the tables are left as they were.
\<close>

lemma regenerate_variant_slash_in_difficulty:
  \<open>regenerate_variant
     (offline_env (\<lambda>n. Returns (Simple (ascii ''{"questions": ["Factor x^2+5x+6."]}''))))
     \<lparr>a_id = ascii ''a1'', title = ascii ''Factoring'', subject = ascii ''math'', teacher_id = None,
       original_content = Some (ascii ''Solve x^2+5x+6=0''), file_path = None,
       status = Ready, error_message = None\<rparr>
     (ascii ''quiz'') (ascii ''a/b'') empty_world =
   (Inl (PyExc (OtherError (ascii ''FileNotFoundError''))
          (ascii ''[Errno 2] No such file or directory: '' @ [39] @
           ascii ''uploads/a1/quiz_a/b.json'' @ [39])),
    empty_world\<lparr>client := \<lparr>calls = 1, sleeps = []\<rparr>\<rparr>)\<close>
proof -
  let ?B = \<open>\<lambda>n::nat. Returns (Simple (ascii ''{"questions": ["Factor x^2+5x+6."]}''))\<close>
  let ?A = "\<lparr>a_id = ascii ''a1'', title = ascii ''Factoring'', subject = ascii ''math'', teacher_id = None,
       original_content = Some (ascii ''Solve x^2+5x+6=0''), file_path = None,
       status = Ready, error_message = None\<rparr>"
  let ?Q = "[(ascii ''summary'', JString (ascii ''math practice exercise'')),
         (ascii ''quiz_type'', JString (ascii ''practice'')),
         (ascii ''questions'', JArray [JString (ascii ''Factor x^2+5x+6.'')])]"
  have b: "extract_base_text (stored (offline_env ?B)) (original_content ?A) (file_path ?A) =
      Inr (ascii ''Solve x^2+5x+6=0'')"
    by (simp add: offline_env_def extract_base_text_def text_parts_def ascii_def strip_def isspace_def)
  have e: "gen_quiz json_loads ?B (ascii ''math'') t d \<lparr>calls = 0, sleeps = []\<rparr> =
      (Inr ?Q, \<lparr>calls = Suc 0, sleeps = []\<rparr>)" for t d
    by (simp add: quiz_eval parse_eval)
  have pth: "path_join (path_join (ascii ''uploads'') (ascii ''a1''))
      (ascii ''quiz_'' @ ascii ''a/b'' @ ascii ''.json'') = ascii ''uploads/a1/quiz_a/b.json''"
    by (simp add: path_join_def ascii_def)
  have ow: "upload_tree_open (ascii ''uploads/a1/quiz_a/b.json'') =
      Some (PyExc (OtherError (ascii ''FileNotFoundError''))
             (ascii ''[Errno 2] No such file or directory: '' @ [39] @
              ascii ''uploads/a1/quiz_a/b.json'' @ [39]))"
    by (simp add: upload_tree_open_def ascii_def)
  show ?thesis
    unfolding regenerate_variant_def b
    by (simp add: regenerate_from_def offline_env_def empty_world_def e write_json_def pth ow)
qed

subsection \<open>A failed generation\<close>

lemma write_object_fresh:
  "a_id a \<notin> set (map a_id rows) \<Longrightarrow> write_object a rows = rows"
  unfolding write_object_def by (rule map_idI) (auto simp: image_iff)

text \<open>
  C2 fails on the code when generation fails before any variant is stored. The
  assignment has only been flushed then; \<open>rollback\<close> discards its row and expunges
  the object, so the \<open>commit\<close> that follows \<open>assignment.status = 'failed'\<close> writes
  nothing. When the backend raises at both attempts of the first step, the exception
  of the second attempt is raised again, and the tables are as before the call:
  there is no row for the new assignment, failed or not.
\<close>

theorem create_assignment_first_step_fails:
  "new_id \<notin> set (map a_id (assignments (db w) @ flushed (db w))) \<and>
   extract_base_text (stored ev) original_text path = Inr t \<and>
   gemini ev (calls (client w)) = Raises e1 \<and> gemini ev (calls (client w) + 1) = Raises e2 \<longrightarrow>
     fst (create_assignment ev new_id ttl subj teacher original_text path w) = Inl e2 \<and>
     assignments (db (snd (create_assignment ev new_id ttl subj teacher original_text path w))) =
       assignments (db w) \<and>
     versions (db (snd (create_assignment ev new_id ttl subj teacher original_text path w))) =
       versions (db w) \<and>
     flushed (db (snd (create_assignment ev new_id ttl subj teacher original_text path w))) = [] \<and>
     new_id \<notin> set (map a_id
       (assignments (db (snd (create_assignment ev new_id ttl subj teacher original_text path w)))))"
proof
  assume h: "new_id \<notin> set (map a_id (assignments (db w) @ flushed (db w))) \<and>
   extract_base_text (stored ev) original_text path = Inr t \<and>
   gemini ev (calls (client w)) = Raises e1 \<and> gemini ev (calls (client w) + 1) = Raises e2"
  let ?a = "\<lparr>a_id = new_id, title = ttl, subject = subj, teacher_id = teacher,
                original_content = original_text, file_path = path,
                status = Generating, error_message = None\<rparr>"
  let ?d1 = "(db w)\<lparr>flushed := flushed (db w) @ [?a]\<rparr>"
  let ?c = "(client w)\<lparr>calls := calls (client w) + 2, sleeps := sleeps (client w) @ [2]\<rparr>"
  from h have fl: "session_add_flush ?a (db w) = Inr ?d1"
    by (simp add: session_add_flush_def)
  from h have g: "gen_simplified_text ev subj t (client w) = (Inl e2, ?c)"
    by (simp add: gen_simplified_text_def call_gemini_twice)
  have s: "simplified_step ev ?a t (w\<lparr>db := ?d1\<rparr>) = (Inl e2, w\<lparr>db := ?d1, client := ?c\<rparr>)"
    by (simp add: simplified_step_def g)
  from h have gen: "generate_all_variants ev ?a (w\<lparr>db := ?d1\<rparr>) = (Inl e2, w\<lparr>db := ?d1, client := ?c\<rparr>)"
    by (simp add: generate_all_variants_def generate_from_def s)
  from h have wo: "write_object a' (assignments (db w)) = assignments (db w)" if "a_id a' = new_id" for a'
    using that by (intro write_object_fresh) simp
  have "create_assignment ev new_id ttl subj teacher original_text path w =
      (Inl e2, w\<lparr>db := (db w)\<lparr>flushed := []\<rparr>, client := ?c\<rparr>)"
    by (simp add: create_assignment_def fl gen Let_def session_commit_def session_rollback_def
          wo write_object_Nil)
  with h show "fst (create_assignment ev new_id ttl subj teacher original_text path w) = Inl e2 \<and>
     assignments (db (snd (create_assignment ev new_id ttl subj teacher original_text path w))) =
       assignments (db w) \<and>
     versions (db (snd (create_assignment ev new_id ttl subj teacher original_text path w))) =
       versions (db w) \<and>
     flushed (db (snd (create_assignment ev new_id ttl subj teacher original_text path w))) = [] \<and>
     new_id \<notin> set (map a_id
       (assignments (db (snd (create_assignment ev new_id ttl subj teacher original_text path w)))))"
    by simp
qed

theorem create_assignment_first_step_fails_witness:
  "ascii ''a1'' \<notin> set (map a_id (assignments (db empty_world) @ flushed (db empty_world))) \<and>
   extract_base_text (\<lambda>p. None) (Some (ascii ''Solve x^2+5x+6=0 by factoring'')) None =
     Inr (ascii ''Solve x^2+5x+6=0 by factoring'') \<and>
   create_assignment
     (offline_env (\<lambda>n. Raises (PyExc (OtherError (ascii ''DeadlineExceeded'')) (ascii ''504 Deadline Exceeded''))))
     (ascii ''a1'') (ascii ''Factoring'') (ascii ''math'') (Some (ascii ''demo-teacher''))
     (Some (ascii ''Solve x^2+5x+6=0 by factoring'')) None empty_world =
     (Inl (PyExc (OtherError (ascii ''DeadlineExceeded'')) (ascii ''504 Deadline Exceeded'')),
      empty_world\<lparr>client := \<lparr>calls = 2, sleeps = [2]\<rparr>\<rparr>) \<and>
   assignments (db (snd (create_assignment
     (offline_env (\<lambda>n. Raises (PyExc (OtherError (ascii ''DeadlineExceeded'')) (ascii ''504 Deadline Exceeded''))))
     (ascii ''a1'') (ascii ''Factoring'') (ascii ''math'') (Some (ascii ''demo-teacher''))
     (Some (ascii ''Solve x^2+5x+6=0 by factoring'')) None empty_world))) = [] \<and>
   versions (db (snd (create_assignment
     (offline_env (\<lambda>n. Raises (PyExc (OtherError (ascii ''DeadlineExceeded'')) (ascii ''504 Deadline Exceeded''))))
     (ascii ''a1'') (ascii ''Factoring'') (ascii ''math'') (Some (ascii ''demo-teacher''))
     (Some (ascii ''Solve x^2+5x+6=0 by factoring'')) None empty_world))) = []"
proof -
  let ?lesson = "ascii ''Solve x^2+5x+6=0 by factoring''"
  let ?e = "PyExc (OtherError (ascii ''DeadlineExceeded'')) (ascii ''504 Deadline Exceeded'')"
  let ?ev = "offline_env (\<lambda>n. Raises ?e)"
  have f: "ascii ''a1'' \<notin> set (map a_id (assignments (db empty_world) @ flushed (db empty_world)))"
    by (simp add: empty_world_def)
  have b: "extract_base_text (\<lambda>p. None) (Some ?lesson) None = Inr ?lesson"
    by (simp add: extract_base_text_def text_parts_def ascii_def strip_def isspace_def)
  have st: "stored ?ev = (\<lambda>p. None)" and ge: "gemini ?ev = (\<lambda>n. Raises ?e)"
    by (simp_all add: offline_env_def)
  have run: "create_assignment ?ev (ascii ''a1'') (ascii ''Factoring'') (ascii ''math'')
      (Some (ascii ''demo-teacher'')) (Some ?lesson) None empty_world =
      (Inl ?e, empty_world\<lparr>client := \<lparr>calls = 2, sleeps = [2]\<rparr>\<rparr>)"
    by (simp add: create_assignment_def session_add_flush_def generate_all_variants_def st b
          generate_from_def simplified_step_def gen_simplified_text_def ge call_gemini_twice
          session_commit_def session_rollback_def write_object_def empty_world_def Let_def)
  from create_assignment_first_step_fails [of "ascii ''a1''" empty_world ?ev "Some ?lesson" None ?lesson
      ?e ?e "ascii ''Factoring''" "ascii ''math''" "Some (ascii ''demo-teacher'')"] f b
  have "assignments (db (snd (create_assignment ?ev (ascii ''a1'') (ascii ''Factoring'') (ascii ''math'')
          (Some (ascii ''demo-teacher'')) (Some ?lesson) None empty_world))) = assignments (db empty_world) \<and>
        versions (db (snd (create_assignment ?ev (ascii ''a1'') (ascii ''Factoring'') (ascii ''math'')
          (Some (ascii ''demo-teacher'')) (Some ?lesson) None empty_world))) = versions (db empty_world)"
    by (simp add: st ge)
  then have "assignments (db (snd (create_assignment ?ev (ascii ''a1'') (ascii ''Factoring'') (ascii ''math'')
          (Some (ascii ''demo-teacher'')) (Some ?lesson) None empty_world))) = [] \<and>
        versions (db (snd (create_assignment ?ev (ascii ''a1'') (ascii ''Factoring'') (ascii ''math'')
          (Some (ascii ''demo-teacher'')) (Some ?lesson) None empty_world))) = []"
    by (simp add: empty_world_def)
  with f b run show ?thesis by (simp only: simp_thms)
qed


text \<open>
  The sibling path: once the first variant has been committed, the assignment row
  is committed with it, and the same \<open>except\<close> clause records \<open>failed\<close> and the
  message on it and leaves the variant in place.
\<close>

lemma create_assignment_fails_after_first_variant:
  \<open>db (snd (create_assignment
     (offline_env (\<lambda>n. if n = 0 then Returns (Simple (ascii ''{"text": "Factor it."}''))
                        else Raises (PyExc (OtherError (ascii ''DeadlineExceeded'')) (ascii ''504 Deadline Exceeded''))))
     (ascii ''a1'') (ascii ''Factoring'') (ascii ''math'') (Some (ascii ''demo-teacher''))
     (Some (ascii ''Solve x^2+5x+6=0 by factoring'')) None empty_world)) =
   \<lparr>assignments =
      [\<lparr>a_id = ascii ''a1'', title = ascii ''Factoring'', subject = ascii ''math'',
        teacher_id = Some (ascii ''demo-teacher''),
        original_content = Some (ascii ''Solve x^2+5x+6=0 by factoring''), file_path = None,
        status = Failed, error_message = Some (ascii ''504 Deadline Exceeded'')\<rparr>],
    versions =
      [\<lparr>assignment_id = ascii ''a1'', variant_type = ascii ''simplified'', version_subject = ascii ''math'',
        content_text = [(ascii ''text'', JString (ascii ''Factor it.'')), (ascii ''highlights'', JArray [])],
        assets = JObject [], ready = True\<rparr>],
    flushed = []\<rparr>\<close>
proof -
  let ?lesson = "ascii ''Solve x^2+5x+6=0 by factoring''"
  let ?e = "PyExc (OtherError (ascii ''DeadlineExceeded'')) (ascii ''504 Deadline Exceeded'')"
  let ?ev = \<open>offline_env (\<lambda>n. if n = 0 then Returns (Simple (ascii ''{"text": "Factor it."}'')) else Raises ?e)\<close>
  let ?a = "\<lparr>a_id = ascii ''a1'', title = ascii ''Factoring'', subject = ascii ''math'',
        teacher_id = Some (ascii ''demo-teacher''), original_content = Some ?lesson, file_path = None,
        status = Generating, error_message = None\<rparr>"
  let ?simplified = "[(ascii ''text'', JString (ascii ''Factor it.'')), (ascii ''highlights'', JArray [])]"
  let ?row = "\<lparr>assignment_id = ascii ''a1'', variant_type = ascii ''simplified'', version_subject = ascii ''math'',
        content_text = ?simplified, assets = JObject [], ready = True\<rparr>"
  let ?w0 = "empty_world\<lparr>db := \<lparr>assignments = [], versions = [], flushed = [?a]\<rparr>\<rparr>"
  let ?w1 = "empty_world\<lparr>client := \<lparr>calls = Suc 0, sleeps = []\<rparr>,
        db := \<lparr>assignments = [?a], versions = [?row], flushed = []\<rparr>\<rparr>"
  let ?w2 = "empty_world\<lparr>client := \<lparr>calls = 3, sleeps = [2]\<rparr>,
        db := \<lparr>assignments = [?a], versions = [?row], flushed = []\<rparr>\<rparr>"
  have p: \<open>parse_json json_loads (ascii ''{"text": "Factor it."}'')
      [(ascii ''text'', JString ?lesson), (ascii ''highlights'', JArray [])] = ?simplified\<close>
    by (simp add: parse_eval)
  have b: "extract_base_text (stored ?ev) (Some ?lesson) None = Inr ?lesson"
    by (simp add: extract_base_text_def text_parts_def ascii_def strip_def isspace_def)
  have g: "gen_simplified_text ?ev (ascii ''math'') ?lesson \<lparr>calls = 0, sleeps = []\<rparr> =
      (Inr ?simplified, \<lparr>calls = Suc 0, sleeps = []\<rparr>)"
    by (simp add: gen_simplified_text_def offline_env_def call_gemini_twice p dict_get_def)
  have s1: "simplified_step ?ev ?a ?lesson ?w0 = (Inr (), ?w1)"
    by (simp add: simplified_step_def empty_world_def g persist_variant_def session_commit_def
          write_object_def)
  have g2: "gen_audio_script ?ev (ascii ''math'') ?lesson \<lparr>calls = Suc 0, sleeps = []\<rparr> =
      (Inl ?e, \<lparr>calls = 3, sleeps = [2]\<rparr>)"
    by (simp add: gen_audio_script_def offline_env_def call_gemini_twice)
  have s2: "audio_step ?ev ?a ?lesson (path_join (upload_root ?ev) (ascii ''a1'')) ?w1 = (Inl ?e, ?w2)"
    by (simp add: audio_step_def empty_world_def g2)
  have gen: "generate_all_variants ?ev ?a ?w0 = (Inl ?e, ?w2)"
    by (simp only: generate_all_variants_def generate_from_def assignment.select_convs b Let_def
          s1 s2 prod.case sum.case)
  have fl: "session_add_flush ?a (db empty_world) = Inr \<lparr>assignments = [], versions = [], flushed = [?a]\<rparr>"
    by (simp add: session_add_flush_def empty_world_def)
  have "create_assignment ?ev (ascii ''a1'') (ascii ''Factoring'') (ascii ''math'')
      (Some (ascii ''demo-teacher'')) (Some ?lesson) None empty_world =
      (Inl ?e, ?w2\<lparr>db := session_commit (?a\<lparr>status := Failed, error_message := Some (exc_str ?e)\<rparr>)
                              (session_rollback (db ?w2))\<rparr>)"
    by (simp only: create_assignment_def Let_def fl sum.case gen prod.case)
  then show ?thesis
    by (simp add: session_commit_def session_rollback_def write_object_def empty_world_def)
qed

end
